theory Spec2Isabelle
  imports Main
begin

unbundle bit_operations_syntax

section \<open>The command tree\<close>

text \<open>
  Modelled from the spec: the tree types \<^verbatim>\<open>word_t\<close>, \<^verbatim>\<open>simple_command_t\<close>,
  \<^verbatim>\<open>operator_t\<close> and \<^verbatim>\<open>command_t\<close>, declared by the parser's header, which
  \<^verbatim>\<open>cmd.c\<close> includes and which is not among the sources. They are given with the
  fields \<^verbatim>\<open>cmd.c\<close> reads. A pointer that may be \<^verbatim>\<open>NULL\<close> is an \<open>option\<close>. A
  word is a chain of fragments (\<open>next_part\<close>), each either literal text or, when
  \<open>expand\<close> is set, the name of a variable; the next word of an argument list is
  \<open>next_word\<close>. A fragment always carries its text, so the test
  \<^verbatim>\<open>dir->string == NULL\<close> of \<^verbatim>\<open>shell_cd\<close> has no counterpart below. The bitset
  \<open>io_flags\<close> is the set of the flags that are on, and \<^verbatim>\<open>io_flags & IO_OUT_APPEND\<close>
  is membership. The field \<^verbatim>\<open>in\<close> of a simple command is called \<open>inp\<close>. The
  back-reference \<^verbatim>\<open>up\<close> of a node is never read by \<^verbatim>\<open>cmd.c\<close> and is left out.
  \<open>OP_DUMMY\<close> stands for any operator value other than the six that \<^verbatim>\<open>cmd.c\<close>
  names.
\<close>

datatype io_flag = IO_OUT_APPEND | IO_ERR_APPEND

datatype word_t =
  Word (string: string) (expand: bool) (next_part: "word_t option") (next_word: "word_t option")

record simple_command_t =
  verb :: "word_t option"
  params :: "word_t option"
  inp :: "word_t option"
  out :: "word_t option"
  err :: "word_t option"
  io_flags :: "io_flag set"

datatype operator_t =
  OP_NONE | OP_SEQUENTIAL | OP_PARALLEL | OP_CONDITIONAL_ZERO | OP_CONDITIONAL_NZERO
  | OP_PIPE | OP_DUMMY

datatype command_t =
  Command (op: operator_t) (scmd: "simple_command_t option")
    (cmd1: "command_t option") (cmd2: "command_t option")

text \<open>Constants of the C library and of Linux.\<close>

definition EXIT_SUCCESS :: int where "EXIT_SUCCESS = 0"
definition EXIT_FAILURE :: int where "EXIT_FAILURE = 1"
definition STDIN_FILENO :: int where "STDIN_FILENO = 0"
definition STDOUT_FILENO :: int where "STDOUT_FILENO = 1"
definition STDERR_FILENO :: int where "STDERR_FILENO = 2"
definition SIGSEGV :: nat where "SIGSEGV = 11"

section \<open>Processes and the operating system\<close>

text \<open>
  The three flag combinations that \<^verbatim>\<open>cmd.c\<close> passes to \<^verbatim>\<open>open\<close>.
\<close>

datatype oflag = O_RDONLY | O_WRONLY_CREAT_TRUNC | O_WRONLY_CREAT_APPEND

text \<open>
  An open file description: what a descriptor refers to. Two descriptors share a file
  offset exactly when they refer to the same description. A description made by
  \<^verbatim>\<open>open\<close> or \<^verbatim>\<open>pipe\<close> is numbered by the length of the trace at the call, so
  two calls never make the same one.
\<close>

datatype ofd =
  Stream nat
  | File nat string oflag
  | Pipe_read nat
  | Pipe_write nat

datatype event =
  Ev_fork bool
  | Ev_wait "int option"
  | Ev_pipe "(int \<times> int) option"
  | Ev_open string oflag int
  | Ev_dup2 int int
  | Ev_close int
  | Ev_exec string "string list" bool
  | Ev_stderr "ofd option" string

text \<open>
  The state of one process: working directory, environment and descriptor table. The
  \<open>trace\<close> is the list of system calls made so far by the shell and by the children it
  has forked; a child starts from a copy of its parent's state, and when the child is
  over the parent takes the child's trace and keeps its own directory, environment and
  descriptors.
\<close>

record state =
  cwd :: string
  environ :: "string \<Rightarrow> string option"
  fds :: "int \<Rightarrow> ofd option"
  trace :: "event list"

text \<open>
  How a process ends: \<^verbatim>\<open>exit(n)\<close>, death by a signal, or never. A function of the
  shell either returns a value to its caller or ends the process it runs in.
\<close>

datatype fate = Exits int | Dies nat | Hangs

datatype 'a result = Returns 'a state | Ends fate state

text \<open>
  What \<^verbatim>\<open>cmd.c\<close> does not decide is a parameter: the word resolver of
  \<^verbatim>\<open>utils.h\<close> (\<open>get_word\<close>, \<open>get_argv\<close>) and the answers of the operating system.
  Each answer may depend on the whole state at the call, trace included, so any sequence
  of answers can be described. \<open>SHELL_EXIT\<close> is the sentinel of \<^verbatim>\<open>cmd.h\<close> that
  \<^verbatim>\<open>parse_command\<close> returns for an unknown operator. \<open>program\<close> is \<^verbatim>\<open>execvp\<close>: \<open>None\<close> when the image
  cannot be loaded, otherwise how the program ends. \<open>chdir_to\<close> gives the directory
  reached from the current one by a path, if there is one. \<open>open_max\<close> bounds the
  descriptors of a process.
\<close>

record sys =
  get_word :: "(string \<Rightarrow> string option) \<Rightarrow> word_t option \<Rightarrow> string"
  get_argv :: "(string \<Rightarrow> string option) \<Rightarrow> simple_command_t \<Rightarrow> string list"
  SHELL_EXIT :: int
  fork_fails :: "state \<Rightarrow> bool"
  pipe_fails :: "state \<Rightarrow> bool"
  wait_fails :: "state \<Rightarrow> bool"
  open_fails :: "state \<Rightarrow> string \<Rightarrow> oflag \<Rightarrow> bool"
  open_max :: nat
  chdir_to :: "state \<Rightarrow> string \<Rightarrow> string option"
  program :: "state \<Rightarrow> string \<Rightarrow> string list \<Rightarrow> fate option"

definition log :: "event \<Rightarrow> state \<Rightarrow> state" where
  "log e s = s\<lparr>trace := trace s @ [e]\<rparr>"

definition lowest_free :: "sys \<Rightarrow> (int \<Rightarrow> ofd option) \<Rightarrow> int option" where
  "lowest_free sy tab = find (\<lambda>fd. tab fd = None) (map int [0..<open_max sy])"

text \<open>\<^verbatim>\<open>open(path, flags)\<close>: the lowest free descriptor, or \<open>-1\<close>.\<close>

definition sys_open :: "sys \<Rightarrow> string \<Rightarrow> oflag \<Rightarrow> state \<Rightarrow> int \<times> state" where
  "sys_open sy path fl s =
     (if open_fails sy s path fl then (- 1, log (Ev_open path fl (- 1)) s)
      else case lowest_free sy (fds s) of
        None \<Rightarrow> (- 1, log (Ev_open path fl (- 1)) s)
      | Some fd \<Rightarrow>
          (fd, log (Ev_open path fl fd)
                 (s\<lparr>fds := (fds s)(fd \<mapsto> File (length (trace s)) path fl)\<rparr>)))"

text \<open>
  \<^verbatim>\<open>dup2(old, new)\<close> fails and changes nothing when \<open>old\<close> is not an open
  descriptor, and does nothing when \<open>old = new\<close>. \<^verbatim>\<open>close(fd)\<close> frees an open
  descriptor. \<^verbatim>\<open>cmd.c\<close> ignores what both return.
\<close>

definition sys_dup2 :: "int \<Rightarrow> int \<Rightarrow> state \<Rightarrow> state" where
  "sys_dup2 old new s =
     (if old < 0 then log (Ev_dup2 old new) s
      else case fds s old of
        None \<Rightarrow> log (Ev_dup2 old new) s
      | Some d \<Rightarrow> log (Ev_dup2 old new) (s\<lparr>fds := (fds s)(new \<mapsto> d)\<rparr>))"

definition sys_close :: "int \<Rightarrow> state \<Rightarrow> state" where
  "sys_close fd s =
     (if fd < 0 then log (Ev_close fd) s
      else log (Ev_close fd) (s\<lparr>fds := (fds s)(fd := None)\<rparr>))"

text \<open>\<^verbatim>\<open>chdir(path)\<close>; the path is \<open>None\<close> for \<^verbatim>\<open>chdir(getenv(..))\<close> of an unset variable.\<close>

definition sys_chdir :: "sys \<Rightarrow> string option \<Rightarrow> state \<Rightarrow> int \<times> state" where
  "sys_chdir sy path s =
     (case path of
        None \<Rightarrow> (- 1, s)
      | Some p \<Rightarrow>
          (case chdir_to sy s p of
             None \<Rightarrow> (- 1, s)
           | Some d \<Rightarrow> (0, s\<lparr>cwd := d\<rparr>)))"

text \<open>
  \<^verbatim>\<open>setenv(name, value, 1)\<close> fails on an empty name and on a name with \<^verbatim>\<open>=\<close> in it.
\<close>

definition sys_setenv :: "string \<Rightarrow> string \<Rightarrow> state \<Rightarrow> int \<times> state" where
  "sys_setenv name val s =
     (if name = [] \<or> CHR ''='' \<in> set name then (- 1, s)
      else (0, s\<lparr>environ := (environ s)(name \<mapsto> val)\<rparr>))"

text \<open>\<^verbatim>\<open>pipe(fd)\<close>: the two lowest free descriptors, read end first.\<close>

definition sys_pipe :: "sys \<Rightarrow> state \<Rightarrow> (int \<times> int) option \<times> state" where
  "sys_pipe sy s =
     (if pipe_fails sy s then (None, log (Ev_pipe None) s)
      else case lowest_free sy (fds s) of
        None \<Rightarrow> (None, log (Ev_pipe None) s)
      | Some r \<Rightarrow>
          (case lowest_free sy ((fds s)(r \<mapsto> Pipe_read (length (trace s)))) of
             None \<Rightarrow> (None, log (Ev_pipe None) s)
           | Some w \<Rightarrow>
               (Some (r, w),
                log (Ev_pipe (Some (r, w)))
                  (s\<lparr>fds := (fds s)(r \<mapsto> Pipe_read (length (trace s)),
                                     w \<mapsto> Pipe_write (length (trace s)))\<rparr>))))"


text \<open>
  The status word that \<^verbatim>\<open>waitpid\<close> stores for a child that is over, and the two
  macros of \<^verbatim>\<open><sys/wait.h>\<close> that read it, as Linux defines them: the exit code sits
  in bits 8 to 15 and the signal in the low seven bits. \<^verbatim>\<open>exit(n)\<close> keeps the low
  eight bits of \<open>n\<close>.
\<close>

definition W_EXITCODE :: "int \<Rightarrow> int \<Rightarrow> int" where
  "W_EXITCODE ret sig = push_bit 8 ret OR sig"

definition WIFEXITED :: "int \<Rightarrow> bool" where
  "WIFEXITED status = (status AND 127 = 0)"

definition WEXITSTATUS :: "int \<Rightarrow> int" where
  "WEXITSTATUS status = drop_bit 8 (status AND 65280)"

text \<open>
  \<^verbatim>\<open>waitpid(pid, &status, 0)\<close> for a child with the given fate: the call fails, or
  never comes back because the child never ends, or stores the child's status.
\<close>

datatype waited = Wait_failed state | Wait_never state | Waited int state

definition sys_waitpid :: "sys \<Rightarrow> fate \<Rightarrow> state \<Rightarrow> waited" where
  "sys_waitpid sy f s =
     (if wait_fails sy s then Wait_failed (log (Ev_wait None) s)
      else case f of
        Hangs \<Rightarrow> Wait_never s
      | Exits n \<Rightarrow>
          Waited (W_EXITCODE (n AND 255) 0) (log (Ev_wait (Some (W_EXITCODE (n AND 255) 0))) s)
      | Dies sig \<Rightarrow>
          Waited (W_EXITCODE 0 (int sig AND 127))
            (log (Ev_wait (Some (W_EXITCODE 0 (int sig AND 127)))) s))"

section \<open>The builtins\<close>

text \<open>
  \<^verbatim>\<open>shell_cd\<close> (lines 23 to 38). The three \<^verbatim>\<open>if\<close> statements follow one another
  with no \<^verbatim>\<open>else\<close>: after a successful change to \<^verbatim>\<open>HOME\<close> or \<^verbatim>\<open>OLDPWD\<close> the
  function goes on to the next test. With \<open>dir = None\<close> the second test reads
  \<^verbatim>\<open>dir->string\<close> through a null pointer, which ends the process with \<open>SIGSEGV\<close>.
\<close>

definition shell_cd :: "sys \<Rightarrow> word_t option \<Rightarrow> state \<Rightarrow> bool result" where
  "shell_cd sy dir s0 =
     (let to_home = (case dir of None \<Rightarrow> True | Some d \<Rightarrow> string d = ''~'' \<or> string d = []);
          (r1, s1) = (if to_home then sys_chdir sy (environ s0 ''HOME'') s0 else (0, s0))
      in if to_home \<and> r1 = - 1 then Returns False s1
         else case dir of
           None \<Rightarrow> Ends (Dies SIGSEGV) s1
         | Some d \<Rightarrow>
             (let to_old = (string d = ''-'');
                  (r2, s2) = (if to_old then sys_chdir sy (environ s1 ''OLDPWD'') s1 else (0, s1))
              in if to_old \<and> r2 = - 1 then Returns False s2
                 else let (r3, s3) = sys_chdir sy (Some (string d)) s2
                      in if r3 = - 1 then Returns False s3 else Returns True s3))"

text \<open>\<^verbatim>\<open>shell_exit\<close> (lines 43 to 49): \<^verbatim>\<open>exit(EXIT_SUCCESS)\<close>; the \<^verbatim>\<open>return\<close> after it is never reached.\<close>

definition shell_exit :: "state \<Rightarrow> int result" where
  "shell_exit s = Ends (Exits EXIT_SUCCESS) s"

section \<open>Simple commands\<close>

text \<open>
  The redirections of the \<^verbatim>\<open>cd\<close> branch (lines 68 to 82). The paths are the texts
  of the first fragments, not resolved.
\<close>

definition cd_redirect_in :: "sys \<Rightarrow> simple_command_t \<Rightarrow> state \<Rightarrow> state" where
  "cd_redirect_in sy sc s =
     (case inp sc of
        None \<Rightarrow> s
      | Some w \<Rightarrow> (let (fd, a) = sys_open sy (string w) O_RDONLY s in sys_close fd a))"

definition cd_redirect_out :: "sys \<Rightarrow> simple_command_t \<Rightarrow> state \<Rightarrow> state" where
  "cd_redirect_out sy sc s =
     (case out sc of
        None \<Rightarrow> s
      | Some w \<Rightarrow> (let (fd, a) = sys_open sy (string w) O_WRONLY_CREAT_TRUNC s in sys_close fd a))"

definition cd_redirect_err :: "sys \<Rightarrow> simple_command_t \<Rightarrow> state \<Rightarrow> state" where
  "cd_redirect_err sy sc s =
     (case err sc of
        None \<Rightarrow> s
      | Some w \<Rightarrow>
          (let (fd, a) = sys_open sy (string w) O_WRONLY_CREAT_TRUNC s
           in sys_close fd (sys_dup2 fd STDERR_FILENO a)))"

definition cd_redirect :: "sys \<Rightarrow> simple_command_t \<Rightarrow> state \<Rightarrow> state" where
  "cd_redirect sy sc s = cd_redirect_err sy sc (cd_redirect_out sy sc (cd_redirect_in sy sc s))"

text \<open>
  The child of an external command (lines 112 to 148). Its four redirection steps, in
  the order of the source; the paths are resolved with \<open>get_word\<close>, and the test of the
  fourth step compares the texts of the first fragments.
\<close>

definition redirect_in :: "sys \<Rightarrow> simple_command_t \<Rightarrow> state \<Rightarrow> state" where
  "redirect_in sy sc s =
     (case inp sc of
        None \<Rightarrow> s
      | Some w \<Rightarrow>
          (let (fd, a) = sys_open sy (get_word sy (environ s) (Some w)) O_RDONLY s
           in sys_close fd (sys_dup2 fd STDIN_FILENO a)))"

definition redirect_out :: "sys \<Rightarrow> simple_command_t \<Rightarrow> state \<Rightarrow> state" where
  "redirect_out sy sc s =
     (case out sc of
        None \<Rightarrow> s
      | Some w \<Rightarrow>
          (let (fd, a) =
                 (if IO_OUT_APPEND \<in> io_flags sc
                  then sys_open sy (get_word sy (environ s) (Some w)) O_WRONLY_CREAT_APPEND s
                  else sys_open sy (get_word sy (environ s) (Some w)) O_WRONLY_CREAT_TRUNC s)
           in sys_close fd (sys_dup2 fd STDOUT_FILENO a)))"

definition redirect_err :: "sys \<Rightarrow> simple_command_t \<Rightarrow> state \<Rightarrow> state" where
  "redirect_err sy sc s =
     (case err sc of
        None \<Rightarrow> s
      | Some w \<Rightarrow>
          (let (fd, a) =
                 (if IO_ERR_APPEND \<in> io_flags sc
                  then sys_open sy (get_word sy (environ s) (Some w)) O_WRONLY_CREAT_APPEND s
                  else sys_open sy (get_word sy (environ s) (Some w)) O_WRONLY_CREAT_TRUNC s)
           in sys_close fd (sys_dup2 fd STDERR_FILENO a)))"

definition redirect_both :: "sys \<Rightarrow> simple_command_t \<Rightarrow> state \<Rightarrow> state" where
  "redirect_both sy sc s =
     (case (out sc, err sc) of
        (Some o1, Some e1) \<Rightarrow>
          (if string o1 = string e1
           then (let (fd, a) = sys_open sy (get_word sy (environ s) (Some o1)) O_WRONLY_CREAT_TRUNC s
                 in sys_close fd (sys_dup2 fd STDERR_FILENO (sys_dup2 fd STDOUT_FILENO a)))
           else s)
      | _ \<Rightarrow> s)"

definition redirect_each :: "sys \<Rightarrow> simple_command_t \<Rightarrow> state \<Rightarrow> state" where
  "redirect_each sy sc s = redirect_err sy sc (redirect_out sy sc (redirect_in sy sc s))"

definition child_redirect :: "sys \<Rightarrow> simple_command_t \<Rightarrow> state \<Rightarrow> state" where
  "child_redirect sy sc s = redirect_both sy sc (redirect_each sy sc s)"

text \<open>
  \<^verbatim>\<open>execvp\<close> comes back only when it fails, with \<open>-1\<close>: then the child prints the
  message on its standard error and calls \<^verbatim>\<open>exit(EXIT_FAILURE)\<close>. Otherwise the child
  is the program, and ends as the program does. So the child never returns, and the
  \<^verbatim>\<open>return rc\<close> of line 148 is never reached.
\<close>

definition exec_failed_msg :: "string \<Rightarrow> string" where
  "exec_failed_msg v = ''Execution failed for '' @ [CHR 0x27] @ v @ [CHR 0x27, CHR 0x0A]"

definition child_simple :: "sys \<Rightarrow> simple_command_t \<Rightarrow> word_t \<Rightarrow> state \<Rightarrow> fate \<times> state" where
  "child_simple sy sc v s =
     (let a = child_redirect sy sc s;
          argv = get_argv sy (environ a) sc
      in case program sy a (string v) argv of
        Some f \<Rightarrow> (f, log (Ev_exec (string v) argv True) a)
      | None \<Rightarrow>
          (Exits EXIT_FAILURE,
           log (Ev_stderr (fds a STDERR_FILENO) (exec_failed_msg (string v)))
             (log (Ev_exec (string v) argv False) a)))"

text \<open>
  The parent of an external command (lines 150 to 157), for a child with fate \<open>f\<close>.
\<close>

definition parent_simple :: "sys \<Rightarrow> fate \<Rightarrow> state \<Rightarrow> int result" where
  "parent_simple sy f s =
     (case sys_waitpid sy f s of
        Wait_failed a \<Rightarrow> Returns (- 1) a
      | Wait_never a \<Rightarrow> Ends Hangs a
      | Waited status a \<Rightarrow> (if WIFEXITED status then Returns status a else Returns 0 a))"

text \<open>
  \<^verbatim>\<open>fork\<close> and the two roles together (lines 104 to 157). The child runs on a copy of
  the state; the parent goes on with its own, and with the trace the child has left.
\<close>

definition external_simple :: "sys \<Rightarrow> simple_command_t \<Rightarrow> word_t \<Rightarrow> state \<Rightarrow> int result" where
  "external_simple sy sc v s =
     (if fork_fails sy s then Returns (- 1) (log (Ev_fork False) s)
      else let (f, c) = child_simple sy sc v (log (Ev_fork True) s)
           in parent_simple sy f (s\<lparr>trace := trace c\<rparr>))"

text \<open>
  \<^verbatim>\<open>parse_simple\<close> (lines 55 to 160). \<open>level\<close> and \<open>father\<close> are passed as in the
  source, which never reads them.
\<close>

definition is_assignment :: "word_t \<Rightarrow> bool" where
  "is_assignment v = (case next_part v of None \<Rightarrow> False | Some p \<Rightarrow> string p = ''='')"

definition assigned_value :: "word_t \<Rightarrow> word_t option" where
  "assigned_value v = (case next_part v of None \<Rightarrow> None | Some p \<Rightarrow> next_part p)"

definition parse_simple ::
  "sys \<Rightarrow> simple_command_t option \<Rightarrow> int \<Rightarrow> command_t option \<Rightarrow> state \<Rightarrow> int result" where
  "parse_simple sy sp level father s =
     (case sp of
        None \<Rightarrow> Returns 0 s
      | Some sc \<Rightarrow>
          (case verb sc of
             None \<Rightarrow> Returns 0 s
           | Some v \<Rightarrow>
               if string v = ''cd'' then
                 (case shell_cd sy (params sc) (cd_redirect sy sc s) of
                    Returns b a \<Rightarrow> Returns (if b then 0 else 1) a
                  | Ends f a \<Rightarrow> Ends f a)
               else if string v = ''exit'' \<or> string v = ''quit'' then shell_exit s
               else if is_assignment v then
                 (let (rc, a) = sys_setenv (string v) (get_word sy (environ s) (assigned_value v)) s
                  in Returns rc a)
               else external_simple sy sc v s))"

section \<open>Command trees\<close>

text \<open>
  A forked child of a runner evaluates its subtree and calls \<^verbatim>\<open>exit(rc)\<close>; if the
  evaluation ends the process before, that is the child's fate.
\<close>

definition subshell :: "int result \<Rightarrow> fate \<times> state" where
  "subshell r = (case r of Returns rc a \<Rightarrow> (Exits rc, a) | Ends f a \<Rightarrow> (f, a))"

text \<open>A C \<^verbatim>\<open>bool\<close> returned where the caller returns \<^verbatim>\<open>int\<close>.\<close>

definition bool_to_int :: "bool result \<Rightarrow> int result" where
  "bool_to_int r = (case r of Returns b a \<Rightarrow> Returns (if b then 1 else 0) a | Ends f a \<Rightarrow> Ends f a)"

fun command_size :: "command_t option \<Rightarrow> nat" where
  "command_size None = 0"
| "command_size (Some (Command opr sc c1 c2)) = Suc (command_size c1 + command_size c2)"

text \<open>
  \<^verbatim>\<open>parse_command\<close> (lines 263 to 316), \<^verbatim>\<open>run_in_parallel\<close> (lines 165 to 203) and
  \<^verbatim>\<open>run_on_pipe\<close> (lines 208 to 258). The two children of a runner are run to their
  end one after the other, in the order of the forks, before the parent waits: what the
  parent returns depends on their fates only. The runners return a C \<^verbatim>\<open>bool\<close>:
  \<^verbatim>\<open>return status2\<close> is \<open>status2 \<noteq> 0\<close>.
\<close>

function parse_command ::
    "sys \<Rightarrow> command_t option \<Rightarrow> int \<Rightarrow> command_t option \<Rightarrow> state \<Rightarrow> int result"
  and run_in_parallel ::
    "sys \<Rightarrow> command_t option \<Rightarrow> command_t option \<Rightarrow> int \<Rightarrow> command_t option \<Rightarrow> state \<Rightarrow> bool result"
  and run_on_pipe ::
    "sys \<Rightarrow> command_t option \<Rightarrow> command_t option \<Rightarrow> int \<Rightarrow> command_t option \<Rightarrow> state \<Rightarrow> bool result"
where
  "parse_command sy None level father s = Returns 0 s"
| "parse_command sy (Some (Command opr sc c1 c2)) level father s =
     (case opr of
        OP_NONE \<Rightarrow> parse_simple sy sc level father s
      | OP_SEQUENTIAL \<Rightarrow>
          (case parse_command sy c1 (level + 1) (Some (Command opr sc c1 c2)) s of
             Ends f a \<Rightarrow> Ends f a
           | Returns rc a \<Rightarrow>
               (case parse_command sy c2 (level + 1) (Some (Command opr sc c1 c2)) a of
                  Ends f b \<Rightarrow> Ends f b
                | Returns rc2 b \<Rightarrow> Returns (rc AND rc2) b))
      | OP_PARALLEL \<Rightarrow>
          bool_to_int (run_in_parallel sy c1 c2 level (Some (Command opr sc c1 c2)) s)
      | OP_CONDITIONAL_NZERO \<Rightarrow>
          (case parse_command sy c1 (level + 1) (Some (Command opr sc c1 c2)) s of
             Ends f a \<Rightarrow> Ends f a
           | Returns rc a \<Rightarrow>
               if rc \<noteq> 0 then parse_command sy c2 (level + 1) (Some (Command opr sc c1 c2)) a
               else Returns rc a)
      | OP_CONDITIONAL_ZERO \<Rightarrow>
          (case parse_command sy c1 (level + 1) (Some (Command opr sc c1 c2)) s of
             Ends f a \<Rightarrow> Ends f a
           | Returns rc a \<Rightarrow>
               if rc = 0 then parse_command sy c2 (level + 1) (Some (Command opr sc c1 c2)) a
               else Returns rc a)
      | OP_PIPE \<Rightarrow>
          bool_to_int (run_on_pipe sy c1 c2 level (Some (Command opr sc c1 c2)) s)
      | OP_DUMMY \<Rightarrow> Returns (SHELL_EXIT sy) s)"
| "run_in_parallel sy c1 c2 level father s =
     (if fork_fails sy s then Returns False (log (Ev_fork False) s)
      else
        let (f1, k1) = subshell (parse_command sy c1 (level + 1) father (log (Ev_fork True) s));
            s1 = s\<lparr>trace := trace k1\<rparr>
        in if fork_fails sy s1 then Returns False (log (Ev_fork False) s1)
           else
             let (f2, k2) =
                   subshell (parse_command sy c2 (level + 1) father (log (Ev_fork True) s1));
                 s2 = s1\<lparr>trace := trace k2\<rparr>
             in case sys_waitpid sy f1 s2 of
                  Wait_failed a \<Rightarrow> Returns False a
                | Wait_never a \<Rightarrow> Ends Hangs a
                | Waited status1 a \<Rightarrow>
                    (case sys_waitpid sy f2 a of
                       Wait_failed b \<Rightarrow> Returns False b
                     | Wait_never b \<Rightarrow> Ends Hangs b
                     | Waited status2 b \<Rightarrow> Returns (status1 \<noteq> 0 \<and> status2 \<noteq> 0) b))"
| "run_on_pipe sy c1 c2 level father s =
     (case sys_pipe sy s of
        (None, p) \<Rightarrow> Returns False p
      | (Some (rd, wr), p) \<Rightarrow>
          if fork_fails sy p then Returns False (log (Ev_fork False) p)
          else
            let (f1, k1) =
                  subshell (parse_command sy c1 (level + 1) father
                    (sys_close wr (sys_dup2 wr STDOUT_FILENO (sys_close rd (log (Ev_fork True) p)))));
                s1 = sys_close wr (p\<lparr>trace := trace k1\<rparr>)
            in if fork_fails sy s1 then Returns False (log (Ev_fork False) s1)
               else
                 let (f2, k2) =
                       subshell (parse_command sy c2 (level + 1) father
                         (sys_close rd (sys_dup2 rd STDIN_FILENO (log (Ev_fork True) s1))));
                     s2 = sys_close rd (s1\<lparr>trace := trace k2\<rparr>)
                 in case sys_waitpid sy f1 s2 of
                      Wait_failed a \<Rightarrow> Returns False a
                    | Wait_never a \<Rightarrow> Ends Hangs a
                    | Waited status1 a \<Rightarrow>
                        (case sys_waitpid sy f2 a of
                           Wait_failed b \<Rightarrow> Returns False b
                         | Wait_never b \<Rightarrow> Ends Hangs b
                         | Waited status2 b \<Rightarrow> Returns (status2 \<noteq> 0) b))"
  by pat_completeness auto
termination
  by (relation "measure (\<lambda>x. case x of
         Inl (sy, c, level, father, s) \<Rightarrow> 2 * command_size c
       | Inr (Inl (sy, c1, c2, level, father, s)) \<Rightarrow> Suc (2 * (command_size c1 + command_size c2))
       | Inr (Inr (sy, c1, c2, level, father, s)) \<Rightarrow> Suc (2 * (command_size c1 + command_size c2)))")
     auto


section \<open>A concrete system\<close>

text \<open>
  Modelled from the spec: the word resolver (\<^verbatim>\<open>get_word\<close> and \<^verbatim>\<open>get_argv\<close> of
  \<^verbatim>\<open>utils.h\<close>, whose code is not in \<^verbatim>\<open>cmd.c\<close>). A word is the concatenation of
  its fragments, a fragment marked \<open>expand\<close> standing for the value of the variable it
  names (nothing when unset); the argument vector is the verb followed by the parameters.
  The theorems below hold for every resolver; this one is used at concrete inputs.
\<close>

fun get_word_std :: "(string \<Rightarrow> string option) \<Rightarrow> word_t option \<Rightarrow> string" where
  "get_word_std env None = []"
| "get_word_std env (Some (Word str ex np nw)) =
     (if ex then (case env str of None \<Rightarrow> [] | Some v \<Rightarrow> v) else str) @ get_word_std env np"

fun word_chain :: "word_t option \<Rightarrow> word_t list" where
  "word_chain None = []"
| "word_chain (Some (Word str ex np nw)) = Word str ex np nw # word_chain nw"

definition get_argv_std :: "(string \<Rightarrow> string option) \<Rightarrow> simple_command_t \<Rightarrow> string list" where
  "get_argv_std env sc =
     get_word_std env (verb sc) # map (\<lambda>w. get_word_std env (Some w)) (word_chain (params sc))"

text \<open>
  A system where no call fails for lack of resources, with four directories, the
  programs \<^verbatim>\<open>true\<close> and \<^verbatim>\<open>false\<close>, a program \<^verbatim>\<open>abort\<close> that dies of signal 6,
  and one path that cannot be opened.
\<close>

definition example_sys :: sys where
  "example_sys =
     \<lparr>get_word = get_word_std, get_argv = get_argv_std, SHELL_EXIT = - 100,
      fork_fails = (\<lambda>s. False), pipe_fails = (\<lambda>s. False), wait_fails = (\<lambda>s. False),
      open_fails = (\<lambda>s p fl. p = ''/nodir/log''), open_max = 8,
      chdir_to = (\<lambda>s p. if p \<in> set [''/home/u'', ''/a'', ''/b'', ''/old''] then Some p else None),
      program = (\<lambda>s p argv.
         if p = ''true'' then Some (Exits 0)
         else if p = ''false'' then Some (Exits 1)
         else if p = ''abort'' then Some (Dies 6)
         else None)\<rparr>"

definition example_state :: state where
  "example_state =
     \<lparr>cwd = ''/'', environ = [''HOME'' \<mapsto> ''/home/u''],
      fds = [0 \<mapsto> Stream 0, 1 \<mapsto> Stream 1, 2 \<mapsto> Stream 2], trace = []\<rparr>"

definition lit :: "string \<Rightarrow> word_t" where
  "lit str = Word str False None None"

definition simple :: "string \<Rightarrow> word_t option \<Rightarrow> simple_command_t" where
  "simple v ps = \<lparr>verb = Some (lit v), params = ps, inp = None, out = None, err = None, io_flags = {}\<rparr>"

definition leaf :: "simple_command_t \<Rightarrow> command_t option" where
  "leaf sc = Some (Command OP_NONE (Some sc) None None)"

definition node :: "operator_t \<Rightarrow> command_t option \<Rightarrow> command_t option \<Rightarrow> command_t option" where
  "node opr c1 c2 = Some (Command opr None c1 c2)"


text \<open>Projections of a result.\<close>

definition returned :: "'a result \<Rightarrow> 'a option" where
  "returned r = (case r of Returns v a \<Rightarrow> Some v | Ends f a \<Rightarrow> None)"

definition ended :: "'a result \<Rightarrow> fate option" where
  "ended r = (case r of Returns v a \<Rightarrow> None | Ends f a \<Rightarrow> Some f)"

definition final :: "'a result \<Rightarrow> state" where
  "final r = (case r of Returns v a \<Rightarrow> a | Ends f a \<Rightarrow> a)"

text \<open>Projections of what \<^verbatim>\<open>waitpid\<close> gave: the status it stored, if any, and the state after.\<close>

definition wait_value :: "waited \<Rightarrow> int option" where
  "wait_value w = (case w of Waited st a \<Rightarrow> Some st | _ \<Rightarrow> None)"

definition wait_state :: "waited \<Rightarrow> state" where
  "wait_state w = (case w of Wait_failed a \<Rightarrow> a | Wait_never a \<Rightarrow> a | Waited st a \<Rightarrow> a)"

text \<open>
  Variants of the example system: one where every \<^verbatim>\<open>fork\<close> fails, one where
  \<^verbatim>\<open>fork\<close> fails once three processes have been made, and one where every
  \<^verbatim>\<open>waitpid\<close> fails.
\<close>

definition no_fork_sys :: sys where
  "no_fork_sys = example_sys\<lparr>fork_fails := (\<lambda>s. True)\<rparr>"

definition scarce_sys :: sys where
  "scarce_sys =
     example_sys\<lparr>fork_fails := (\<lambda>s. 3 \<le> length (filter (\<lambda>e. e = Ev_fork True) (trace s)))\<rparr>"

definition no_wait_sys :: sys where
  "no_wait_sys = example_sys\<lparr>wait_fails := (\<lambda>s. True)\<rparr>"


section \<open>Basic facts\<close>

lemma returned_Returns [simp]: "returned (Returns v a) = Some v"
  and returned_Ends [simp]: "returned (Ends f a) = None"
  and ended_Returns [simp]: "ended (Returns v a) = None"
  and ended_Ends [simp]: "ended (Ends f a) = Some f"
  and final_Returns [simp]: "final (Returns v a) = a"
  and final_Ends [simp]: "final (Ends f a) = a"
  by (simp_all add: returned_def ended_def final_def)

lemma returned_SomeD: "returned r = Some v \<Longrightarrow> \<exists>a. r = Returns v a"
  by (cases r) simp_all

lemma ended_SomeD: "ended r = Some f \<Longrightarrow> \<exists>a. r = Ends f a"
  by (cases r) simp_all

declare parse_command.simps [simp del] run_in_parallel.simps [simp del] run_on_pipe.simps [simp del]

lemmas parse_command_node = parse_command.simps(2)

text \<open>A status word built from an exit code reads as a normal exit.\<close>

lemma WIFEXITED_exit_status: "WIFEXITED (W_EXITCODE n 0)"
proof -
  have m: "(127::int) = mask 7" by (simp add: mask_eq_exp_minus_1)
  have "take_bit 7 (push_bit 8 n) = (0::int)" by (simp add: take_bit_push_bit)
  then show ?thesis
    by (simp add: WIFEXITED_def W_EXITCODE_def m flip: take_bit_eq_mask)
qed

text \<open>The three ways out of the parent's role (lines 150 to 157).\<close>

lemma parent_simple_exited:
  "\<not> wait_fails sy s \<Longrightarrow>
   parent_simple sy (Exits n) s =
     Returns (W_EXITCODE (n AND 255) 0) (log (Ev_wait (Some (W_EXITCODE (n AND 255) 0))) s)"
  by (simp add: parent_simple_def sys_waitpid_def WIFEXITED_exit_status)

lemma parent_simple_wait_fails:
  "wait_fails sy s \<Longrightarrow> parent_simple sy f s = Returns (- 1) (log (Ev_wait None) s)"
  by (simp add: parent_simple_def sys_waitpid_def)

lemma parent_simple_signal:
  "\<not> wait_fails sy s \<Longrightarrow> \<not> WIFEXITED (W_EXITCODE 0 (int sig AND 127)) \<Longrightarrow>
   parent_simple sy (Dies sig) s =
     Returns 0 (log (Ev_wait (Some (W_EXITCODE 0 (int sig AND 127)))) s)"
  by (simp add: parent_simple_def sys_waitpid_def)

lemma parse_simple_external:
  "verb sc = Some v \<Longrightarrow> string v \<noteq> ''cd'' \<Longrightarrow> string v \<noteq> ''exit'' \<Longrightarrow> string v \<noteq> ''quit'' \<Longrightarrow>
   \<not> is_assignment v \<Longrightarrow>
   parse_simple sy (Some sc) level father s = external_simple sy sc v s"
  by (simp add: parse_simple_def)

lemma wait_value_simps [simp]:
  "wait_value (Wait_failed a) = None" "wait_value (Wait_never a) = None" "wait_value (Waited st a) = Some st"
  by (simp_all add: wait_value_def)

lemma wait_state_simps [simp]:
  "wait_state (Wait_failed a) = a" "wait_state (Wait_never a) = a" "wait_state (Waited st a) = a"
  by (simp_all add: wait_state_def)

lemma wait_value_SomeD: "wait_value w = Some st \<Longrightarrow> w = Waited st (wait_state w)"
  by (cases w) simp_all

lemma sys_waitpid_fails: "wait_fails sy s \<Longrightarrow> sys_waitpid sy f s = Wait_failed (log (Ev_wait None) s)"
  by (simp add: sys_waitpid_def)

section \<open>Descriptor tables\<close>

text \<open>
  A descriptor given by \<^verbatim>\<open>open\<close> was free and is not negative. Opening and closing
  leaves the table as it was; opening, duplicating onto \<open>t\<close> and closing changes the
  table at \<open>t\<close> only, and only when the open succeeded on a descriptor other than \<open>t\<close>.
\<close>

lemma lowest_free_SomeD: "lowest_free sy tab = Some fd \<Longrightarrow> tab fd = None \<and> 0 \<le> fd"
  by (auto simp: lowest_free_def find_Some_iff)

lemma sys_open_cases:
  "sys_open sy p fl s = (fd, a) \<Longrightarrow>
     (fd = - 1 \<and> a = log (Ev_open p fl (- 1)) s)
   \<or> (0 \<le> fd \<and> fds s fd = None
       \<and> a = log (Ev_open p fl fd) (s\<lparr>fds := (fds s)(fd \<mapsto> File (length (trace s)) p fl)\<rparr>))"
  by (auto simp: sys_open_def split: if_splits option.splits dest: lowest_free_SomeD)

lemma open_close:
  assumes "sys_open sy p fl s = (fd, a)"
  shows "fds (sys_close fd a) = fds s"
    and "cwd (sys_close fd a) = cwd s"
    and "environ (sys_close fd a) = environ s"
    and "trace (sys_close fd a) = trace s @ [Ev_open p fl fd, Ev_close fd]"
  using sys_open_cases [OF assms]
  by (auto simp: sys_close_def log_def fun_eq_iff)

lemma open_dup2_close:
  assumes "sys_open sy p fl s = (fd, a)"
  shows "fds (sys_close fd (sys_dup2 fd t a)) =
           (if 0 \<le> fd \<and> fd \<noteq> t then (fds s)(t \<mapsto> File (length (trace s)) p fl) else fds s)"
    and "cwd (sys_close fd (sys_dup2 fd t a)) = cwd s"
    and "environ (sys_close fd (sys_dup2 fd t a)) = environ s"
    and "trace (sys_close fd (sys_dup2 fd t a)) = trace s @ [Ev_open p fl fd, Ev_dup2 fd t, Ev_close fd]"
  using sys_open_cases [OF assms]
  by (auto simp: sys_close_def sys_dup2_def log_def fun_eq_iff)


lemma sys_open_not_open:
  "sys_open sy p fl s = (fd, a) \<Longrightarrow> 0 \<le> fd \<Longrightarrow> fds s t \<noteq> None \<Longrightarrow> fd \<noteq> t"
  by (auto dest: sys_open_cases)

lemma cd_redirect_in_fds: "fds (cd_redirect_in sy sc s) = fds s"
  by (auto simp: cd_redirect_in_def open_close split: option.splits prod.splits)

lemma cd_redirect_out_fds: "fds (cd_redirect_out sy sc s) = fds s"
  by (auto simp: cd_redirect_out_def open_close split: option.splits prod.splits)

lemma cd_redirect_err_fds:
  "fds (cd_redirect_err sy sc s) =
     (case err sc of
        None \<Rightarrow> fds s
      | Some e \<Rightarrow>
          if 0 \<le> fst (sys_open sy (string e) O_WRONLY_CREAT_TRUNC s)
             \<and> fst (sys_open sy (string e) O_WRONLY_CREAT_TRUNC s) \<noteq> STDERR_FILENO
          then (fds s)(STDERR_FILENO \<mapsto> File (length (trace s)) (string e) O_WRONLY_CREAT_TRUNC)
          else fds s)"
  by (auto simp: cd_redirect_err_def open_dup2_close split: option.splits prod.splits)

lemma sys_chdir_fds: "fds (snd (sys_chdir sy p s)) = fds s"
  and sys_chdir_trace: "trace (snd (sys_chdir sy p s)) = trace s"
  by (auto simp: sys_chdir_def split: option.splits)

lemma shell_cd_fds: "fds (final (shell_cd sy dir s)) = fds s"
  by (auto simp: shell_cd_def Let_def sys_chdir_def split: option.splits prod.splits if_splits)

lemma parse_simple_cd:
  "verb sc = Some v \<Longrightarrow> string v = ''cd'' \<Longrightarrow>
   final (parse_simple sy (Some sc) level father s) = final (shell_cd sy (params sc) (cd_redirect sy sc s))"
  by (auto simp: parse_simple_def split: result.splits)

text \<open>With an argument other than \<^verbatim>\<open>~\<close>, the empty text and \<^verbatim>\<open>-\<close>, \<^verbatim>\<open>shell_cd\<close> is one \<^verbatim>\<open>chdir\<close>.\<close>

lemma shell_cd_literal:
  "string d \<noteq> ''~'' \<Longrightarrow> string d \<noteq> [] \<Longrightarrow> string d \<noteq> ''-'' \<Longrightarrow>
   shell_cd sy (Some d) s =
     (case chdir_to sy s (string d) of
        None \<Rightarrow> Returns False s
      | Some t \<Rightarrow> Returns True (s\<lparr>cwd := t\<rparr>))"
  by (simp add: shell_cd_def sys_chdir_def split: option.splits)

lemma parse_simple_level:
  "parse_simple sy sp level father s = parse_simple sy sp level' father' s"
  by (simp add: parse_simple_def)

lemma parse_command_leaf:
  "parse_command sy (Some (Command OP_NONE sp d1 d2)) level father s = parse_simple sy sp level father s"
  by (simp add: parse_command.simps)

lemma final_case_result:
  "final (case r of Returns r2 s2 \<Rightarrow> Returns (g r2) s2 | Ends f s2 \<Rightarrow> Ends f s2) = final r"
  by (cases r) simp_all



text \<open>What each call and each redirection step adds to the trace.\<close>

lemma sys_close_trace: "trace (sys_close fd s) = trace s @ [Ev_close fd]"
  by (simp add: sys_close_def log_def)

lemma sys_dup2_trace: "trace (sys_dup2 old new s) = trace s @ [Ev_dup2 old new]"
  by (simp add: sys_dup2_def log_def split: option.splits)

lemma sys_open_pair: "sys_open sy p fl s = (fst (sys_open sy p fl s), snd (sys_open sy p fl s))"
  by simp

lemma sys_open_trace:
  "trace (snd (sys_open sy p fl s)) = trace s @ [Ev_open p fl (fst (sys_open sy p fl s))]"
  by (simp add: sys_open_def log_def split: option.splits)

lemma redirect_in_trace:
  "trace (redirect_in sy sc s) = trace s @
     (case inp sc of
        None \<Rightarrow> []
      | Some w \<Rightarrow>
          [Ev_open (get_word sy (environ s) (Some w)) O_RDONLY
             (fst (sys_open sy (get_word sy (environ s) (Some w)) O_RDONLY s)),
           Ev_dup2 (fst (sys_open sy (get_word sy (environ s) (Some w)) O_RDONLY s)) STDIN_FILENO,
           Ev_close (fst (sys_open sy (get_word sy (environ s) (Some w)) O_RDONLY s))])"
  by (simp add: redirect_in_def split_beta open_dup2_close(4) [OF sys_open_pair] split: option.splits)

lemma redirect_in_environ: "environ (redirect_in sy sc s) = environ s"
  by (simp add: redirect_in_def split_beta open_dup2_close(3) [OF sys_open_pair] split: option.splits)

lemma child_simple_eq:
  "child_simple sy sc v c =
     (case program sy (child_redirect sy sc c) (string v)
             (get_argv sy (environ (child_redirect sy sc c)) sc) of
        Some f \<Rightarrow>
          (f, (child_redirect sy sc c)
                \<lparr>trace := trace (child_redirect sy sc c)
                   @ [Ev_exec (string v) (get_argv sy (environ (child_redirect sy sc c)) sc) True]\<rparr>)
      | None \<Rightarrow>
          (Exits EXIT_FAILURE,
           (child_redirect sy sc c)
             \<lparr>trace := trace (child_redirect sy sc c)
                @ [Ev_exec (string v) (get_argv sy (environ (child_redirect sy sc c)) sc) False,
                   Ev_stderr (fds (child_redirect sy sc c) STDERR_FILENO) (exec_failed_msg (string v))]\<rparr>))"
  by (simp add: child_simple_def Let_def log_def split: option.splits)

lemma redirect_each_trace_prefix: "\<exists>es. trace (redirect_each sy sc s) = trace s @ es"
proof -
  have i: "\<exists>es. trace (redirect_in sy sc s) = trace s @ es"
    by (simp add: redirect_in_trace)
  have o: "\<And>t. \<exists>es. trace (redirect_out sy sc t) = trace t @ es"
    by (simp add: redirect_out_def split_beta open_dup2_close(4) [OF sys_open_pair] split: option.splits)
  have e: "\<And>t. \<exists>es. trace (redirect_err sy sc t) = trace t @ es"
    by (simp add: redirect_err_def split_beta open_dup2_close(4) [OF sys_open_pair] split: option.splits)
  from i o e show ?thesis
    unfolding redirect_each_def by (metis append.assoc)
qed

lemma redirect_both_trace_prefix: "\<exists>es. trace (redirect_both sy sc s) = trace s @ es"
  by (simp add: redirect_both_def split_beta sys_close_trace sys_dup2_trace sys_open_trace
      split: option.splits)

lemma child_redirect_trace_prefix: "\<exists>es. trace (child_redirect sy sc s) = trace s @ es"
  unfolding child_redirect_def
  using redirect_each_trace_prefix [of sy sc s] redirect_both_trace_prefix [of sy sc "redirect_each sy sc s"]
  by (metis append.assoc)

lemma cd_redirect_in_trace:
  "trace (cd_redirect_in sy sc s) = trace s @
     (case inp sc of
        None \<Rightarrow> []
      | Some w \<Rightarrow>
          [Ev_open (string w) O_RDONLY (fst (sys_open sy (string w) O_RDONLY s)),
           Ev_close (fst (sys_open sy (string w) O_RDONLY s))])"
  by (simp add: cd_redirect_in_def split_beta open_close(4) [OF sys_open_pair] split: option.splits)

lemma cd_redirect_out_trace:
  "trace (cd_redirect_out sy sc s) = trace s @
     (case out sc of
        None \<Rightarrow> []
      | Some w \<Rightarrow>
          [Ev_open (string w) O_WRONLY_CREAT_TRUNC (fst (sys_open sy (string w) O_WRONLY_CREAT_TRUNC s)),
           Ev_close (fst (sys_open sy (string w) O_WRONLY_CREAT_TRUNC s))])"
  by (simp add: cd_redirect_out_def split_beta open_close(4) [OF sys_open_pair] split: option.splits)

lemma cd_redirect_err_trace:
  "trace (cd_redirect_err sy sc s) = trace s @
     (case err sc of
        None \<Rightarrow> []
      | Some w \<Rightarrow>
          [Ev_open (string w) O_WRONLY_CREAT_TRUNC (fst (sys_open sy (string w) O_WRONLY_CREAT_TRUNC s)),
           Ev_dup2 (fst (sys_open sy (string w) O_WRONLY_CREAT_TRUNC s)) STDERR_FILENO,
           Ev_close (fst (sys_open sy (string w) O_WRONLY_CREAT_TRUNC s))])"
  by (simp add: cd_redirect_err_def split_beta open_dup2_close(4) [OF sys_open_pair] split: option.splits)

lemma shell_cd_trace: "trace (final (shell_cd sy dir s)) = trace s"
  by (auto simp: shell_cd_def Let_def sys_chdir_def split: option.splits prod.splits if_splits)


section \<open>Exit status of an external command\<close>

text \<open>
  C1 says that a leaf whose child ends normally returns the child's exit code. The parent
  returns the status word of \<^verbatim>\<open>waitpid\<close> as it is, without \<^verbatim>\<open>WEXITSTATUS\<close>: for
  the program \<^verbatim>\<open>false\<close>, which exits with code 1, the leaf returns 256.
\<close>

theorem exit_code_lost:
  "returned (parse_simple example_sys (Some (simple ''false'' None)) 0 None example_state) = Some 256
   \<and> program example_sys example_state ''false'' [''false''] = Some (Exits 1)
   \<and> WIFEXITED 256 \<and> WEXITSTATUS 256 = 1"
  by code_simp

section \<open>Sequences\<close>

text \<open>
  C2: in a \<open>SEQUENTIAL\<close> node, once \<open>cmd1\<close> has returned a status \<open>r1\<close>, whatever it is,
  \<open>cmd2\<close> is evaluated in the state \<open>cmd1\<close> has left, and the node returns the bitwise
  AND of the two statuses (2 and 1 give 0).
\<close>

theorem sequential_result:
  fixes sy sc c1 c2 level father s r1
  defines "n \<equiv> Command OP_SEQUENTIAL sc c1 c2"
  defines "s1 \<equiv> final (parse_command sy c1 (level + 1) (Some n) s)"
  assumes "returned (parse_command sy c1 (level + 1) (Some n) s) = Some r1"
  shows "parse_command sy (Some n) level father s =
           (case parse_command sy c2 (level + 1) (Some n) s1 of
              Returns r2 s2 \<Rightarrow> Returns (r1 AND r2) s2
            | Ends f s2 \<Rightarrow> Ends f s2)
         \<and> (2::int) AND 1 = 0"
proof (cases "parse_command sy c1 (level + 1) (Some n) s")
  case (Returns v a)
  with assms(3) show ?thesis
    unfolding n_def s1_def by (simp add: parse_command_node)
next
  case (Ends f a)
  with assms(3) show ?thesis by simp
qed

text \<open>
  At \<^verbatim>\<open>cd /nodir ; false\<close>: the first command fails with status 1, the second is run all
  the same and returns 256, and the sequence returns \<open>1 AND 256 = 0\<close>.
\<close>

theorem sequential_result_witness:
  "returned (parse_command example_sys (leaf (simple ''cd'' (Some (lit ''/nodir'')))) (0 + 1)
       (node OP_SEQUENTIAL (leaf (simple ''cd'' (Some (lit ''/nodir'')))) (leaf (simple ''false'' None)))
       example_state) = Some 1
   \<and> returned (parse_command example_sys
       (node OP_SEQUENTIAL (leaf (simple ''cd'' (Some (lit ''/nodir'')))) (leaf (simple ''false'' None)))
       0 None example_state) = Some 0
   \<and> trace (final (parse_command example_sys
       (node OP_SEQUENTIAL (leaf (simple ''cd'' (Some (lit ''/nodir'')))) (leaf (simple ''false'' None)))
       0 None example_state))
       = [Ev_fork True, Ev_exec ''false'' [''false''] True, Ev_wait (Some 256)]"
proof -
  let ?c1 = "Some (Command OP_NONE (Some (simple ''cd'' (Some (lit ''/nodir'')))) None None)"
  let ?c2 = "Some (Command OP_NONE (Some (simple ''false'' None)) None None)"
  let ?n = "Command OP_SEQUENTIAL None ?c1 ?c2"
  have h: "returned (parse_command example_sys ?c1 (0 + 1) (Some ?n) example_state) = Some 1"
    by code_simp
  have r2: "returned (parse_command example_sys ?c2 (0 + 1) (Some ?n)
               (final (parse_command example_sys ?c1 (0 + 1) (Some ?n) example_state))) = Some 256"
    by code_simp
  have t: "trace (final (parse_command example_sys ?c2 (0 + 1) (Some ?n)
               (final (parse_command example_sys ?c1 (0 + 1) (Some ?n) example_state))))
           = [Ev_fork True, Ev_exec ''false'' [''false''] True, Ev_wait (Some 256)]"
    by code_simp
  from r2 obtain b where e: "parse_command example_sys ?c2 (0 + 1) (Some ?n)
               (final (parse_command example_sys ?c1 (0 + 1) (Some ?n) example_state)) = Returns 256 b"
    by (auto dest: returned_SomeD)
  from sequential_result [OF h, of None] e
  have "parse_command example_sys (Some ?n) 0 None example_state = Returns (1 AND 256) b"
    by simp
  with h t e show ?thesis
    by (simp add: node_def leaf_def)
qed


section \<open>Conditionals\<close>

text \<open>
  C7: in a \<open>COND_NONZERO\<close> node, once \<open>cmd1\<close> has returned \<open>r1\<close>, the node is the
  evaluation of \<open>cmd2\<close> in the state left by \<open>cmd1\<close> when \<open>r1 \<noteq> 0\<close>, and otherwise it is
  the result of \<open>cmd1\<close> itself, status and state: nothing of \<open>cmd2\<close> has happened. In a
  \<open>COND_ZERO\<close> node the same holds with the test \<open>r1 = 0\<close>.
\<close>

theorem conditional_result:
  fixes sy sc c1 c2 level father s r1
  defines "nz \<equiv> Command OP_CONDITIONAL_NZERO sc c1 c2"
  defines "z \<equiv> Command OP_CONDITIONAL_ZERO sc c1 c2"
  shows "(returned (parse_command sy c1 (level + 1) (Some nz) s) = Some r1 \<longrightarrow>
            parse_command sy (Some nz) level father s =
              (if r1 \<noteq> 0
               then parse_command sy c2 (level + 1) (Some nz)
                      (final (parse_command sy c1 (level + 1) (Some nz) s))
               else parse_command sy c1 (level + 1) (Some nz) s))
       \<and> (returned (parse_command sy c1 (level + 1) (Some z) s) = Some r1 \<longrightarrow>
            parse_command sy (Some z) level father s =
              (if r1 = 0
               then parse_command sy c2 (level + 1) (Some z)
                      (final (parse_command sy c1 (level + 1) (Some z) s))
               else parse_command sy c1 (level + 1) (Some z) s))"
proof (intro conjI impI)
  assume "returned (parse_command sy c1 (level + 1) (Some nz) s) = Some r1"
  then show "parse_command sy (Some nz) level father s =
              (if r1 \<noteq> 0
               then parse_command sy c2 (level + 1) (Some nz)
                      (final (parse_command sy c1 (level + 1) (Some nz) s))
               else parse_command sy c1 (level + 1) (Some nz) s)"
    unfolding nz_def
    by (cases "parse_command sy c1 (level + 1) (Some (Command OP_CONDITIONAL_NZERO sc c1 c2)) s")
       (simp_all add: parse_command_node)
next
  assume "returned (parse_command sy c1 (level + 1) (Some z) s) = Some r1"
  then show "parse_command sy (Some z) level father s =
              (if r1 = 0
               then parse_command sy c2 (level + 1) (Some z)
                      (final (parse_command sy c1 (level + 1) (Some z) s))
               else parse_command sy c1 (level + 1) (Some z) s)"
    unfolding z_def
    by (cases "parse_command sy c1 (level + 1) (Some (Command OP_CONDITIONAL_ZERO sc c1 c2)) s")
       (simp_all add: parse_command_node)
qed

text \<open>
  At \<^verbatim>\<open>cd /nodir || false\<close> the second command runs and gives the result; at
  \<^verbatim>\<open>cd /nodir && false\<close> it does not run: the status is that of \<^verbatim>\<open>cd\<close> and the
  trace is empty.
\<close>

theorem conditional_result_witness:
  "returned (parse_command example_sys
       (node OP_CONDITIONAL_NZERO (leaf (simple ''cd'' (Some (lit ''/nodir'')))) (leaf (simple ''false'' None)))
       0 None example_state) = Some 256
   \<and> returned (parse_command example_sys
       (node OP_CONDITIONAL_ZERO (leaf (simple ''cd'' (Some (lit ''/nodir'')))) (leaf (simple ''false'' None)))
       0 None example_state) = Some 1
   \<and> trace (final (parse_command example_sys
       (node OP_CONDITIONAL_ZERO (leaf (simple ''cd'' (Some (lit ''/nodir'')))) (leaf (simple ''false'' None)))
       0 None example_state)) = []"
proof -
  let ?c1 = "Some (Command OP_NONE (Some (simple ''cd'' (Some (lit ''/nodir'')))) None None)"
  let ?c2 = "Some (Command OP_NONE (Some (simple ''false'' None)) None None)"
  let ?nz = "Command OP_CONDITIONAL_NZERO None ?c1 ?c2"
  let ?z = "Command OP_CONDITIONAL_ZERO None ?c1 ?c2"
  note cr = conditional_result [where sy = example_sys and sc = None and ?c1.0 = ?c1
      and ?c2.0 = ?c2 and level = 0 and father = None and s = example_state and ?r1.0 = 1]
  have h1: "returned (parse_command example_sys ?c1 (0 + 1) (Some ?nz) example_state) = Some 1"
    by code_simp
  have h2: "returned (parse_command example_sys ?c1 (0 + 1) (Some ?z) example_state) = Some 1"
    by code_simp
  have t2: "trace (final (parse_command example_sys ?c1 (0 + 1) (Some ?z) example_state)) = []"
    by code_simp
  have r2: "returned (parse_command example_sys ?c2 (0 + 1) (Some ?nz)
               (final (parse_command example_sys ?c1 (0 + 1) (Some ?nz) example_state))) = Some 256"
    by code_simp
  from cr [THEN conjunct1, THEN mp, OF h1] r2
  have a: "returned (parse_command example_sys (Some ?nz) 0 None example_state) = Some 256"
    by simp
  from cr [THEN conjunct2, THEN mp, OF h2] h2 t2
  have b: "returned (parse_command example_sys (Some ?z) 0 None example_state) = Some 1
         \<and> trace (final (parse_command example_sys (Some ?z) 0 None example_state)) = []"
    by simp
  from a b show ?thesis
    by (simp add: node_def leaf_def)
qed

section \<open>exit and quit\<close>

text \<open>
  C8: a leaf whose verb is \<^verbatim>\<open>exit\<close> or \<^verbatim>\<open>quit\<close> ends the process with
  \<open>EXIT_SUCCESS\<close> and does not return. When the evaluation of \<open>cmd1\<close> ends the process,
  a sequence or conditional node above it is that same end, with the state as it was
  then: \<open>cmd2\<close> is not evaluated. When \<open>cmd2\<close> of a sequence ends the process, the
  sequence is that end: no status is combined and nothing is returned to the nodes above.
\<close>

theorem exit_ends_process:
  fixes sy x v d1 d2 opr sc c1 c2 level father s f r1
  defines "n \<equiv> Command opr sc c1 c2"
  defines "sq \<equiv> Command OP_SEQUENTIAL sc c1 c2"
  shows "(verb x = Some v \<and> (string v = ''exit'' \<or> string v = ''quit'') \<longrightarrow>
            parse_command sy (Some (Command OP_NONE (Some x) d1 d2)) level father s
              = Ends (Exits EXIT_SUCCESS) s)
       \<and> ((opr = OP_SEQUENTIAL \<or> opr = OP_CONDITIONAL_NZERO \<or> opr = OP_CONDITIONAL_ZERO)
            \<and> ended (parse_command sy c1 (level + 1) (Some n) s) = Some f \<longrightarrow>
            parse_command sy (Some n) level father s = parse_command sy c1 (level + 1) (Some n) s)
       \<and> (returned (parse_command sy c1 (level + 1) (Some sq) s) = Some r1
            \<and> ended (parse_command sy c2 (level + 1) (Some sq)
                       (final (parse_command sy c1 (level + 1) (Some sq) s))) = Some f \<longrightarrow>
            parse_command sy (Some sq) level father s =
              parse_command sy c2 (level + 1) (Some sq)
                (final (parse_command sy c1 (level + 1) (Some sq) s)))"
proof (intro conjI impI)
  assume "verb x = Some v \<and> (string v = ''exit'' \<or> string v = ''quit'')"
  then show "parse_command sy (Some (Command OP_NONE (Some x) d1 d2)) level father s
              = Ends (Exits EXIT_SUCCESS) s"
    by (auto simp: parse_command_node parse_simple_def shell_exit_def)
next
  assume h: "(opr = OP_SEQUENTIAL \<or> opr = OP_CONDITIONAL_NZERO \<or> opr = OP_CONDITIONAL_ZERO)
            \<and> ended (parse_command sy c1 (level + 1) (Some n) s) = Some f"
  then show "parse_command sy (Some n) level father s = parse_command sy c1 (level + 1) (Some n) s"
    unfolding n_def
    by (cases "parse_command sy c1 (level + 1) (Some (Command opr sc c1 c2)) s")
       (auto simp: parse_command_node)
next
  assume h: "returned (parse_command sy c1 (level + 1) (Some sq) s) = Some r1
            \<and> ended (parse_command sy c2 (level + 1) (Some sq)
                       (final (parse_command sy c1 (level + 1) (Some sq) s))) = Some f"
  show "parse_command sy (Some sq) level father s =
              parse_command sy c2 (level + 1) (Some sq)
                (final (parse_command sy c1 (level + 1) (Some sq) s))"
  proof (cases "parse_command sy c1 (level + 1) (Some sq) s")
    case (Returns r a)
    with h have "ended (parse_command sy c2 (level + 1) (Some sq) a) = Some f" by simp
    then obtain b where "parse_command sy c2 (level + 1) (Some sq) a = Ends f b"
      by (auto dest: ended_SomeD)
    with Returns show ?thesis
      unfolding sq_def by (simp add: parse_command_node)
  next
    case (Ends g a)
    with h show ?thesis by simp
  qed
qed

text \<open>
  At the leaf \<^verbatim>\<open>exit\<close>; at \<^verbatim>\<open>exit ; false\<close>, where \<^verbatim>\<open>false\<close> is never run (the
  trace stays empty); and at \<^verbatim>\<open>cd /nodir ; quit\<close>.
\<close>

theorem exit_ends_process_witness:
  "ended (parse_command example_sys (leaf (simple ''exit'' None)) 0 None example_state)
     = Some (Exits EXIT_SUCCESS)
   \<and> ended (parse_command example_sys
       (node OP_SEQUENTIAL (leaf (simple ''exit'' None)) (leaf (simple ''false'' None)))
       0 None example_state) = Some (Exits EXIT_SUCCESS)
   \<and> trace (final (parse_command example_sys
       (node OP_SEQUENTIAL (leaf (simple ''exit'' None)) (leaf (simple ''false'' None)))
       0 None example_state)) = []
   \<and> ended (parse_command example_sys
       (node OP_SEQUENTIAL (leaf (simple ''cd'' (Some (lit ''/nodir'')))) (leaf (simple ''quit'' None)))
       0 None example_state) = Some (Exits EXIT_SUCCESS)"
proof -
  let ?ex = "Some (Command OP_NONE (Some (simple ''exit'' None)) None None)"
  let ?qu = "Some (Command OP_NONE (Some (simple ''quit'' None)) None None)"
  let ?fa = "Some (Command OP_NONE (Some (simple ''false'' None)) None None)"
  let ?cd = "Some (Command OP_NONE (Some (simple ''cd'' (Some (lit ''/nodir'')))) None None)"
  let ?n = "Command OP_SEQUENTIAL None ?ex ?fa"
  let ?m = "Command OP_SEQUENTIAL None ?cd ?qu"
  have v: "verb (simple ''exit'' None) = Some (lit ''exit'')
         \<and> (string (lit ''exit'') = ''exit'' \<or> string (lit ''exit'') = ''quit'')"
    by (simp add: simple_def lit_def)
  from exit_ends_process [where x = "simple ''exit'' None" and v = "lit ''exit''" and sy = example_sys
      and ?d1.0 = None and ?d2.0 = None and level = 0 and father = None and s = example_state,
      THEN conjunct1, THEN mp, OF v]
  have a: "ended (parse_command example_sys ?ex 0 None example_state) = Some (Exits EXIT_SUCCESS)"
    by simp
  have h1: "(OP_SEQUENTIAL = OP_SEQUENTIAL \<or> OP_SEQUENTIAL = OP_CONDITIONAL_NZERO
              \<or> OP_SEQUENTIAL = OP_CONDITIONAL_ZERO)
          \<and> ended (parse_command example_sys ?ex (0 + 1) (Some ?n) example_state) = Some (Exits EXIT_SUCCESS)"
    by code_simp
  have t1: "trace (final (parse_command example_sys ?ex (0 + 1) (Some ?n) example_state)) = []"
    by code_simp
  from exit_ends_process [where opr = OP_SEQUENTIAL and sc = None and ?c1.0 = ?ex and ?c2.0 = ?fa
      and sy = example_sys and level = 0 and father = None and s = example_state
      and f = "Exits EXIT_SUCCESS", THEN conjunct2, THEN conjunct1, THEN mp, OF h1] h1 t1
  have b: "ended (parse_command example_sys (Some ?n) 0 None example_state) = Some (Exits EXIT_SUCCESS)
         \<and> trace (final (parse_command example_sys (Some ?n) 0 None example_state)) = []"
    by simp
  have h2: "returned (parse_command example_sys ?cd (0 + 1) (Some ?m) example_state) = Some 1
          \<and> ended (parse_command example_sys ?qu (0 + 1) (Some ?m)
                     (final (parse_command example_sys ?cd (0 + 1) (Some ?m) example_state)))
              = Some (Exits EXIT_SUCCESS)"
    by code_simp
  from exit_ends_process [where sc = None and ?c1.0 = ?cd and ?c2.0 = ?qu
      and sy = example_sys and level = 0 and father = None and s = example_state
      and f = "Exits EXIT_SUCCESS" and ?r1.0 = 1, THEN conjunct2, THEN conjunct2, THEN mp, OF h2] h2
  have c: "ended (parse_command example_sys (Some ?m) 0 None example_state) = Some (Exits EXIT_SUCCESS)"
    by simp
  from a b c show ?thesis
    by (simp add: node_def leaf_def)
qed

section \<open>A command that cannot be loaded\<close>

text \<open>
  C9: take an external-command leaf whose \<^verbatim>\<open>fork\<close> succeeds and whose program
  \<^verbatim>\<open>execvp\<close> cannot load. The child, which starts at the fork and makes its
  redirections (state \<open>a\<close>), then does exactly two things: the failed \<^verbatim>\<open>execvp\<close> and
  the message naming the verb, written on its standard error as redirected; it ends with
  \<^verbatim>\<open>exit(EXIT_FAILURE)\<close> and does not return (\<open>child_simple\<close> yields a fate, not a
  value). The leaf takes the child's trace, waits, and returns 256, the status word of
  exit code 1, or \<open>-1\<close> when \<^verbatim>\<open>waitpid\<close> fails: never zero. Its directory, environment
  and descriptors are those it had.
\<close>

theorem exec_failure:
  fixes sy sc v level father s
  defines "c \<equiv> log (Ev_fork True) s"
  defines "a \<equiv> child_redirect sy sc c"
  defines "argv \<equiv> get_argv sy (environ a) sc"
  defines "msg \<equiv> ''Execution failed for '' @ [CHR 0x27] @ string v @ [CHR 0x27, CHR 0x0A]"
  defines "k \<equiv> s\<lparr>trace := trace a @ [Ev_exec (string v) argv False, Ev_stderr (fds a STDERR_FILENO) msg]\<rparr>"
  assumes "verb sc = Some v"
    and "string v \<noteq> ''cd''" and "string v \<noteq> ''exit''" and "string v \<noteq> ''quit''"
    and "\<not> is_assignment v"
    and "\<not> fork_fails sy s"
    and "program sy a (string v) argv = None"
  shows "child_simple sy sc v c =
           (Exits EXIT_FAILURE,
            a\<lparr>trace := trace a @ [Ev_exec (string v) argv False, Ev_stderr (fds a STDERR_FILENO) msg]\<rparr>)
       \<and> (\<exists>es. trace a = trace s @ Ev_fork True # es)
       \<and> parse_simple sy (Some sc) level father s =
           (if wait_fails sy k then Returns (- 1) (k\<lparr>trace := trace k @ [Ev_wait None]\<rparr>)
            else Returns 256 (k\<lparr>trace := trace k @ [Ev_wait (Some 256)]\<rparr>))"
proof -
  have ch: "child_simple sy sc v c =
           (Exits EXIT_FAILURE,
            a\<lparr>trace := trace a @ [Ev_exec (string v) argv False, Ev_stderr (fds a STDERR_FILENO) msg]\<rparr>)"
    using assms(12) unfolding a_def argv_def msg_def
    by (simp add: child_simple_eq exec_failed_msg_def)
  obtain es where "trace a = trace c @ es"
    unfolding a_def using child_redirect_trace_prefix by blast
  then have pre: "\<exists>es. trace a = trace s @ Ev_fork True # es"
    by (simp add: c_def log_def)
  have ps: "parse_simple sy (Some sc) level father s = parent_simple sy (Exits EXIT_FAILURE) k"
    using assms(6-11) ch unfolding c_def k_def
    by (simp add: parse_simple_external external_simple_def)
  have st: "W_EXITCODE (EXIT_FAILURE AND 255) 0 = 256"
    by (simp add: W_EXITCODE_def EXIT_FAILURE_def)
  have "parse_simple sy (Some sc) level father s =
           (if wait_fails sy k then Returns (- 1) (k\<lparr>trace := trace k @ [Ev_wait None]\<rparr>)
            else Returns 256 (k\<lparr>trace := trace k @ [Ev_wait (Some 256)]\<rparr>))"
    by (simp add: ps parent_simple_wait_fails parent_simple_exited st log_def)
  with ch pre show ?thesis by (intro conjI)
qed

text \<open>At the leaf \<^verbatim>\<open>nosuch\<close>, a program the example system does not have.\<close>

theorem exec_failure_witness:
  "child_simple example_sys (simple ''nosuch'' None) (lit ''nosuch'') (log (Ev_fork True) example_state)
     = (Exits EXIT_FAILURE,
        (child_redirect example_sys (simple ''nosuch'' None) (log (Ev_fork True) example_state))
          \<lparr>trace := [Ev_fork True, Ev_exec ''nosuch'' [''nosuch''] False,
                      Ev_stderr (Some (Stream 2)) ''Execution failed for 'nosuch'\<newline>'']\<rparr>)
   \<and> returned (parse_simple example_sys (Some (simple ''nosuch'' None)) 0 None example_state) = Some 256
   \<and> trace (final (parse_simple example_sys (Some (simple ''nosuch'' None)) 0 None example_state))
       = [Ev_fork True, Ev_exec ''nosuch'' [''nosuch''] False,
          Ev_stderr (Some (Stream 2)) ''Execution failed for 'nosuch'\<newline>'',
          Ev_wait (Some 256)]"
proof -
  let ?sc = "simple ''nosuch'' None"
  let ?v = "lit ''nosuch''"
  let ?a = "child_redirect example_sys ?sc (log (Ev_fork True) example_state)"
  let ?argv = "get_argv example_sys (environ ?a) ?sc"
  let ?msg = "''Execution failed for '' @ [CHR 0x27] @ string ?v @ [CHR 0x27, CHR 0x0A]"
  let ?k = "example_state\<lparr>trace := trace ?a @ [Ev_exec (string ?v) ?argv False,
                                                 Ev_stderr (fds ?a STDERR_FILENO) ?msg]\<rparr>"
  have h1: "verb ?sc = Some ?v" by code_simp
  have h2: "string ?v \<noteq> ''cd''" by code_simp
  have h3: "string ?v \<noteq> ''exit''" by code_simp
  have h4: "string ?v \<noteq> ''quit''" by code_simp
  have h5: "\<not> is_assignment ?v" by code_simp
  have h6: "\<not> fork_fails example_sys example_state" by code_simp
  have h7: "program example_sys ?a (string ?v) ?argv = None" by code_simp
  note T = exec_failure [OF h1 h2 h3 h4 h5 h6 h7, of 0 None]
  have w: "\<not> wait_fails example_sys ?k" by code_simp
  have e: "trace ?a = [Ev_fork True]" "string ?v = ''nosuch''" "?argv = [''nosuch'']"
    "fds ?a STDERR_FILENO = Some (Stream 2)"
    "?msg = ''Execution failed for 'nosuch'\<newline>''"
    by code_simp+
  from T [THEN conjunct1] have a: "child_simple example_sys ?sc ?v (log (Ev_fork True) example_state)
     = (Exits EXIT_FAILURE,
        ?a\<lparr>trace := [Ev_fork True, Ev_exec ''nosuch'' [''nosuch''] False,
                      Ev_stderr (Some (Stream 2)) ''Execution failed for 'nosuch'\<newline>'']\<rparr>)"
    unfolding e by simp
  from T [THEN conjunct2, THEN conjunct2] w
  have "parse_simple example_sys (Some ?sc) 0 None example_state
          = Returns 256 (?k\<lparr>trace := trace ?k @ [Ev_wait (Some 256)]\<rparr>)"
    by simp
  then have b: "returned (parse_simple example_sys (Some ?sc) 0 None example_state) = Some 256
     \<and> trace (final (parse_simple example_sys (Some ?sc) 0 None example_state))
       = [Ev_fork True, Ev_exec ''nosuch'' [''nosuch''] False,
          Ev_stderr (Some (Stream 2)) ''Execution failed for 'nosuch'\<newline>'',
          Ev_wait (Some 256)]"
    unfolding e by simp
  from a b show ?thesis by (intro conjI) simp_all
qed

section \<open>cd\<close>

text \<open>
  C4 says that \<^verbatim>\<open>cd ~\<close> changes to \<^verbatim>\<open>HOME\<close> and returns 0, that \<^verbatim>\<open>cd\<close> with no
  argument does the same, and that \<^verbatim>\<open>cd -\<close> goes back to the directory visited before.
  \<^verbatim>\<open>shell_cd\<close> changes to \<^verbatim>\<open>HOME\<close> and then goes on to \<^verbatim>\<open>chdir("~")\<close>, which
  fails: the leaf returns 1. With no argument it reads the null \<^verbatim>\<open>dir\<close> after the
  change. And \<^verbatim>\<open>OLDPWD\<close> is never set by the shell: after \<^verbatim>\<open>cd /a ; cd /b\<close>,
  \<^verbatim>\<open>cd -\<close> goes where the inherited \<^verbatim>\<open>OLDPWD\<close> says, then tries \<^verbatim>\<open>chdir("-")\<close>
  and returns 1.
\<close>

theorem cd_falls_through:
  "returned (parse_simple example_sys (Some (simple ''cd'' (Some (lit ''~'')))) 0 None example_state) = Some 1
   \<and> cwd (final (parse_simple example_sys (Some (simple ''cd'' (Some (lit ''~'')))) 0 None example_state))
       = ''/home/u''
   \<and> environ example_state ''HOME'' = Some ''/home/u''
   \<and> ended (parse_simple example_sys (Some (simple ''cd'' None)) 0 None example_state) = Some (Dies SIGSEGV)
   \<and> cwd (final (parse_command example_sys
        (node OP_SEQUENTIAL (leaf (simple ''cd'' (Some (lit ''/a''))))
           (leaf (simple ''cd'' (Some (lit ''/b''))))) 0 None
        (example_state\<lparr>environ := (environ example_state)(''OLDPWD'' \<mapsto> ''/old'')\<rparr>))) = ''/b''
   \<and> returned (parse_simple example_sys (Some (simple ''cd'' (Some (lit ''-'')))) 0 None
        (final (parse_command example_sys
           (node OP_SEQUENTIAL (leaf (simple ''cd'' (Some (lit ''/a''))))
              (leaf (simple ''cd'' (Some (lit ''/b''))))) 0 None
           (example_state\<lparr>environ := (environ example_state)(''OLDPWD'' \<mapsto> ''/old'')\<rparr>)))) = Some 1
   \<and> cwd (final (parse_simple example_sys (Some (simple ''cd'' (Some (lit ''-'')))) 0 None
        (final (parse_command example_sys
           (node OP_SEQUENTIAL (leaf (simple ''cd'' (Some (lit ''/a''))))
              (leaf (simple ''cd'' (Some (lit ''/b''))))) 0 None
           (example_state\<lparr>environ := (environ example_state)(''OLDPWD'' \<mapsto> ''/old'')\<rparr>))))) = ''/old''"
  by code_simp

section \<open>The parallel runner\<close>

text \<open>
  C3: \<^verbatim>\<open>run_in_parallel\<close> forks a child that evaluates \<open>cmd1\<close> and a child that
  evaluates \<open>cmd2\<close>, and waits for the first and then for the second. If either
  \<^verbatim>\<open>fork\<close> fails or either \<^verbatim>\<open>waitpid\<close> fails it returns false. If all four calls
  succeed it returns true exactly when both status words are not zero, and its own
  calls after the second child are the two waits.
\<close>

theorem parallel_result:
  fixes sy c1 c2 level father s st1 st2
  defines "k1 \<equiv> subshell (parse_command sy c1 (level + 1) father (log (Ev_fork True) s))"
  defines "s1 \<equiv> s\<lparr>trace := trace (snd k1)\<rparr>"
  defines "k2 \<equiv> subshell (parse_command sy c2 (level + 1) father (log (Ev_fork True) s1))"
  defines "s2 \<equiv> s1\<lparr>trace := trace (snd k2)\<rparr>"
  defines "w1 \<equiv> sys_waitpid sy (fst k1) s2"
  defines "w2 \<equiv> sys_waitpid sy (fst k2) (wait_state w1)"
  defines "r \<equiv> run_in_parallel sy c1 c2 level father s"
  shows "(fork_fails sy s \<longrightarrow> returned r = Some False)
       \<and> (\<not> fork_fails sy s \<and> fork_fails sy s1 \<longrightarrow> returned r = Some False)
       \<and> (\<not> fork_fails sy s \<and> \<not> fork_fails sy s1 \<and> wait_fails sy s2 \<longrightarrow> returned r = Some False)
       \<and> (\<not> fork_fails sy s \<and> \<not> fork_fails sy s1 \<and> wait_value w1 = Some st1
            \<and> wait_fails sy (wait_state w1) \<longrightarrow> returned r = Some False)
       \<and> (\<not> fork_fails sy s \<and> \<not> fork_fails sy s1 \<and> wait_value w1 = Some st1
            \<and> wait_value w2 = Some st2 \<longrightarrow>
            returned r = Some (st1 \<noteq> 0 \<and> st2 \<noteq> 0)
            \<and> trace (final r) = trace (snd k2) @ [Ev_wait (Some st1), Ev_wait (Some st2)])"
proof -
  have u: "\<not> fork_fails sy s \<Longrightarrow> \<not> fork_fails sy s1 \<Longrightarrow>
      r = (case w1 of
             Wait_failed a \<Rightarrow> Returns False a
           | Wait_never a \<Rightarrow> Ends Hangs a
           | Waited status1 a \<Rightarrow>
               (case sys_waitpid sy (fst k2) a of
                  Wait_failed b \<Rightarrow> Returns False b
                | Wait_never b \<Rightarrow> Ends Hangs b
                | Waited status2 b \<Rightarrow> Returns (status1 \<noteq> 0 \<and> status2 \<noteq> 0) b))"
    unfolding r_def w1_def s2_def k2_def s1_def k1_def
    by (simp add: run_in_parallel.simps Let_def split_beta)
  have tr: "\<And>f st a b. sys_waitpid sy f a = Waited st b \<Longrightarrow> trace b = trace a @ [Ev_wait (Some st)]"
    by (auto simp: sys_waitpid_def log_def split: if_splits fate.splits)
  have p1: "fork_fails sy s \<longrightarrow> returned r = Some False"
    unfolding r_def by (simp add: run_in_parallel.simps)
  have p2: "\<not> fork_fails sy s \<and> fork_fails sy s1 \<longrightarrow> returned r = Some False"
    unfolding r_def s1_def k1_def by (simp add: run_in_parallel.simps Let_def split_beta)
  have p3: "\<not> fork_fails sy s \<and> \<not> fork_fails sy s1 \<and> wait_fails sy s2 \<longrightarrow> returned r = Some False"
    using u by (simp add: w1_def sys_waitpid_fails)
  have p4: "\<not> fork_fails sy s \<and> \<not> fork_fails sy s1 \<and> wait_value w1 = Some st1
            \<and> wait_fails sy (wait_state w1) \<longrightarrow> returned r = Some False"
  proof
    assume h: "\<not> fork_fails sy s \<and> \<not> fork_fails sy s1 \<and> wait_value w1 = Some st1
            \<and> wait_fails sy (wait_state w1)"
    then have "w1 = Waited st1 (wait_state w1)" by (simp add: wait_value_SomeD)
    then have "r = (case sys_waitpid sy (fst k2) (wait_state w1) of
                  Wait_failed b \<Rightarrow> Returns False b
                | Wait_never b \<Rightarrow> Ends Hangs b
                | Waited status2 b \<Rightarrow> Returns (st1 \<noteq> 0 \<and> status2 \<noteq> 0) b)"
      using u h by (metis waited.simps(12))
    with h show "returned r = Some False"
      by (simp add: sys_waitpid_fails)
  qed
  have p5: "\<not> fork_fails sy s \<and> \<not> fork_fails sy s1 \<and> wait_value w1 = Some st1
            \<and> wait_value w2 = Some st2 \<longrightarrow>
            returned r = Some (st1 \<noteq> 0 \<and> st2 \<noteq> 0)
            \<and> trace (final r) = trace (snd k2) @ [Ev_wait (Some st1), Ev_wait (Some st2)]"
  proof
    assume h: "\<not> fork_fails sy s \<and> \<not> fork_fails sy s1 \<and> wait_value w1 = Some st1
            \<and> wait_value w2 = Some st2"
    then have e1: "w1 = Waited st1 (wait_state w1)" and e2: "w2 = Waited st2 (wait_state w2)"
      by (simp_all add: wait_value_SomeD)
    from e1 have "r = (case w2 of
                  Wait_failed b \<Rightarrow> Returns False b
                | Wait_never b \<Rightarrow> Ends Hangs b
                | Waited status2 b \<Rightarrow> Returns (st1 \<noteq> 0 \<and> status2 \<noteq> 0) b)"
      using u h unfolding w2_def by (metis waited.simps(12))
    with e2 have e: "r = Returns (st1 \<noteq> 0 \<and> st2 \<noteq> 0) (wait_state w2)"
      by (metis waited.simps(12))
    have "trace (wait_state w1) = trace s2 @ [Ev_wait (Some st1)]"
      using e1 tr unfolding w1_def by metis
    moreover have "trace (wait_state w2) = trace (wait_state w1) @ [Ev_wait (Some st2)]"
      using e2 tr unfolding w2_def by metis
    moreover have "trace s2 = trace (snd k2)" by (simp add: s2_def)
    ultimately show "returned r = Some (st1 \<noteq> 0 \<and> st2 \<noteq> 0)
            \<and> trace (final r) = trace (snd k2) @ [Ev_wait (Some st1), Ev_wait (Some st2)]"
      using e by simp
  qed
  from p1 p2 p3 p4 p5 show ?thesis by (intro conjI)
qed

text \<open>
  Where \<^verbatim>\<open>fork\<close> fails; where \<^verbatim>\<open>waitpid\<close> fails; and at
  \<^verbatim>\<open>cd /nodir & cd /nodir\<close>, whose children both exit with code 1.
\<close>

theorem parallel_result_witness:
  "returned (run_in_parallel no_fork_sys (leaf (simple ''true'' None)) (leaf (simple ''true'' None))
      0 None example_state) = Some False
   \<and> returned (run_in_parallel no_wait_sys (leaf (simple ''cd'' (Some (lit ''/nodir''))))
      (leaf (simple ''cd'' (Some (lit ''/nodir'')))) 0 None example_state) = Some False
   \<and> returned (run_in_parallel example_sys (leaf (simple ''cd'' (Some (lit ''/nodir''))))
      (leaf (simple ''cd'' (Some (lit ''/nodir'')))) 0 None example_state) = Some True
   \<and> trace (final (run_in_parallel example_sys (leaf (simple ''cd'' (Some (lit ''/nodir''))))
      (leaf (simple ''cd'' (Some (lit ''/nodir'')))) 0 None example_state))
       = [Ev_fork True, Ev_fork True, Ev_wait (Some 256), Ev_wait (Some 256)]"
proof -
  let ?tr = "leaf (simple ''true'' None)"
  let ?cd = "leaf (simple ''cd'' (Some (lit ''/nodir'')))"
  let ?k1 = "subshell (parse_command example_sys ?cd (0 + 1) None (log (Ev_fork True) example_state))"
  let ?s1 = "example_state\<lparr>trace := trace (snd ?k1)\<rparr>"
  let ?k2 = "subshell (parse_command example_sys ?cd (0 + 1) None (log (Ev_fork True) ?s1))"
  have a: "returned (run_in_parallel no_fork_sys ?tr ?tr 0 None example_state) = Some False"
    by (rule parallel_result [THEN conjunct1, THEN mp]; code_simp)
  have b: "returned (run_in_parallel no_wait_sys ?cd ?cd 0 None example_state) = Some False"
    by (rule parallel_result [THEN conjunct2, THEN conjunct2, THEN conjunct1, THEN mp]; code_simp)
  have c: "returned (run_in_parallel example_sys ?cd ?cd 0 None example_state)
             = Some ((256::int) \<noteq> 0 \<and> (256::int) \<noteq> 0)
         \<and> trace (final (run_in_parallel example_sys ?cd ?cd 0 None example_state))
             = trace (snd ?k2) @ [Ev_wait (Some 256), Ev_wait (Some 256)]"
    by (rule parallel_result [where ?st1.0 = 256 and ?st2.0 = 256, THEN conjunct2, THEN conjunct2,
          THEN conjunct2, THEN conjunct2, THEN mp]; code_simp)
  have t: "trace (snd ?k2) = [Ev_fork True, Ev_fork True]"
    by code_simp
  from a b c t show ?thesis by simp
qed

section \<open>The pipe runner\<close>

text \<open>
  C5 says that \<^verbatim>\<open>run_on_pipe\<close> returns the status of the second child. The function
  returns a \<^verbatim>\<open>bool\<close>, so \<^verbatim>\<open>return status2\<close> is the truth value of
  \<open>status2 \<noteq> 0\<close>, and the \<open>PIPE\<close> node returns 1 or 0. At \<^verbatim>\<open>true | false\<close> in a
  system where the fourth \<^verbatim>\<open>fork\<close> fails, the second child gets \<open>-1\<close> from its leaf
  and calls \<^verbatim>\<open>exit(-1)\<close>: its exit code is 255 and its status word 65280, and the node
  returns 1.
\<close>

theorem pipe_status_counterexample:
  "returned (run_on_pipe scarce_sys (leaf (simple ''true'' None)) (leaf (simple ''false'' None))
      0 None example_state) = Some True
   \<and> returned (parse_command scarce_sys
       (node OP_PIPE (leaf (simple ''true'' None)) (leaf (simple ''false'' None))) 0 None example_state)
      = Some 1
   \<and> last (trace (final (run_on_pipe scarce_sys (leaf (simple ''true'' None)) (leaf (simple ''false'' None))
      0 None example_state))) = Ev_wait (Some 65280)
   \<and> WEXITSTATUS 65280 = 255"
  by code_simp

text \<open>
  C5, amended: when the pipe, both forks and both waits succeed, \<^verbatim>\<open>run_on_pipe\<close>
  returns true if the status word of the second child is not zero and false if it is
  zero; the status \<open>st1\<close> of the first child has no part in the result.
\<close>

theorem pipe_result:
  fixes sy c1 c2 level father s rd wr st1 st2
  defines "p \<equiv> snd (sys_pipe sy s)"
  defines "k1 \<equiv> subshell (parse_command sy c1 (level + 1) father
                   (sys_close wr (sys_dup2 wr STDOUT_FILENO (sys_close rd (log (Ev_fork True) p)))))"
  defines "s1 \<equiv> sys_close wr (p\<lparr>trace := trace (snd k1)\<rparr>)"
  defines "k2 \<equiv> subshell (parse_command sy c2 (level + 1) father
                   (sys_close rd (sys_dup2 rd STDIN_FILENO (log (Ev_fork True) s1))))"
  defines "s2 \<equiv> sys_close rd (s1\<lparr>trace := trace (snd k2)\<rparr>)"
  defines "w1 \<equiv> sys_waitpid sy (fst k1) s2"
  defines "w2 \<equiv> sys_waitpid sy (fst k2) (wait_state w1)"
  assumes "fst (sys_pipe sy s) = Some (rd, wr)"
    and "\<not> fork_fails sy p" and "\<not> fork_fails sy s1"
    and "wait_value w1 = Some st1" and "wait_value w2 = Some st2"
  shows "run_on_pipe sy c1 c2 level father s = Returns (st2 \<noteq> 0) (wait_state w2)"
proof -
  have sp: "sys_pipe sy s = (Some (rd, wr), p)"
    using assms(8) unfolding p_def by (cases "sys_pipe sy s") simp
  have u: "run_on_pipe sy c1 c2 level father s =
      (case w1 of
         Wait_failed a \<Rightarrow> Returns False a
       | Wait_never a \<Rightarrow> Ends Hangs a
       | Waited status1 a \<Rightarrow>
           (case sys_waitpid sy (fst k2) a of
              Wait_failed b \<Rightarrow> Returns False b
            | Wait_never b \<Rightarrow> Ends Hangs b
            | Waited status2 b \<Rightarrow> Returns (status2 \<noteq> 0) b))"
    using assms(9,10) unfolding w1_def s2_def k2_def s1_def k1_def
    by (simp add: run_on_pipe.simps sp Let_def split_beta)
  have e1: "w1 = Waited st1 (wait_state w1)" and e2: "w2 = Waited st2 (wait_state w2)"
    using assms(11,12) by (simp_all add: wait_value_SomeD)
  from e1 u have "run_on_pipe sy c1 c2 level father s =
      (case w2 of
         Wait_failed b \<Rightarrow> Returns False b
       | Wait_never b \<Rightarrow> Ends Hangs b
       | Waited status2 b \<Rightarrow> Returns (status2 \<noteq> 0) b)"
    unfolding w2_def by (metis waited.simps(12))
  with e2 show ?thesis
    by (metis waited.simps(12))
qed

text \<open>
  At \<^verbatim>\<open>false | cd /nodir\<close>, where the second child exits with code 1, and at
  \<^verbatim>\<open>cd /nodir | false\<close>, where the second child calls \<^verbatim>\<open>exit(256)\<close>, that is
  exit code 0, while the first child fails.
\<close>

theorem pipe_result_witness:
  "returned (run_on_pipe example_sys (leaf (simple ''false'' None))
      (leaf (simple ''cd'' (Some (lit ''/nodir'')))) 0 None example_state) = Some True
   \<and> returned (run_on_pipe example_sys (leaf (simple ''cd'' (Some (lit ''/nodir''))))
      (leaf (simple ''false'' None)) 0 None example_state) = Some False"
proof -
  let ?fa = "leaf (simple ''false'' None)"
  let ?cd = "leaf (simple ''cd'' (Some (lit ''/nodir'')))"
  let ?p = "snd (sys_pipe example_sys example_state)"
  let ?k1 = "subshell (parse_command example_sys ?fa (0 + 1) None
               (sys_close 4 (sys_dup2 4 STDOUT_FILENO (sys_close 3 (log (Ev_fork True) ?p)))))"
  let ?s1 = "sys_close 4 (?p\<lparr>trace := trace (snd ?k1)\<rparr>)"
  let ?k2 = "subshell (parse_command example_sys ?cd (0 + 1) None
               (sys_close 3 (sys_dup2 3 STDIN_FILENO (log (Ev_fork True) ?s1))))"
  let ?s2 = "sys_close 3 (?s1\<lparr>trace := trace (snd ?k2)\<rparr>)"
  let ?w1 = "sys_waitpid example_sys (fst ?k1) ?s2"
  let ?w2 = "sys_waitpid example_sys (fst ?k2) (wait_state ?w1)"
  let ?j1 = "subshell (parse_command example_sys ?cd (0 + 1) None
               (sys_close 4 (sys_dup2 4 STDOUT_FILENO (sys_close 3 (log (Ev_fork True) ?p)))))"
  let ?t1 = "sys_close 4 (?p\<lparr>trace := trace (snd ?j1)\<rparr>)"
  let ?j2 = "subshell (parse_command example_sys ?fa (0 + 1) None
               (sys_close 3 (sys_dup2 3 STDIN_FILENO (log (Ev_fork True) ?t1))))"
  let ?t2 = "sys_close 3 (?t1\<lparr>trace := trace (snd ?j2)\<rparr>)"
  let ?v1 = "sys_waitpid example_sys (fst ?j1) ?t2"
  let ?v2 = "sys_waitpid example_sys (fst ?j2) (wait_state ?v1)"
  have a: "run_on_pipe example_sys ?fa ?cd 0 None example_state
             = Returns ((256::int) \<noteq> 0) (wait_state ?w2)"
    by (rule pipe_result [where ?st1.0 = 0]; code_simp)
  have b: "run_on_pipe example_sys ?cd ?fa 0 None example_state
             = Returns ((0::int) \<noteq> 0) (wait_state ?v2)"
    by (rule pipe_result [where ?st1.0 = 256]; code_simp)
  from a b show ?thesis by simp
qed

section \<open>Redirections of cd\<close>

text \<open>
  C10 says that every \<^verbatim>\<open>cd\<close> leaf with an \<open>err\<close> target rebinds the standard error
  of the shell to that file. Nothing tests what \<^verbatim>\<open>open\<close> returns: when the target
  cannot be opened, \<^verbatim>\<open>dup2(-1, STDERR_FILENO)\<close> fails and the standard error stays
  what it was. Here \<^verbatim>\<open>cd /a 2> /nodir/log\<close>, with a path that cannot be opened.
\<close>

theorem cd_err_not_rebound:
  "err ((simple ''cd'' (Some (lit ''/a'')))\<lparr>err := Some (lit ''/nodir/log'')\<rparr>) = Some (lit ''/nodir/log'')
   \<and> returned (parse_simple example_sys
        (Some ((simple ''cd'' (Some (lit ''/a'')))\<lparr>err := Some (lit ''/nodir/log'')\<rparr>)) 0 None example_state)
       = Some 0
   \<and> fds (final (parse_simple example_sys
        (Some ((simple ''cd'' (Some (lit ''/a'')))\<lparr>err := Some (lit ''/nodir/log'')\<rparr>)) 0 None example_state))
        STDERR_FILENO = Some (Stream 2)
   \<and> fds example_state STDERR_FILENO = Some (Stream 2)"
  by code_simp

text \<open>
  C10, amended: for a \<^verbatim>\<open>cd\<close> leaf, the \<open>in\<close> target, if any, is opened read-only and
  closed at once (state \<open>i\<close>), then the \<open>out\<close> target, if any, is opened for writing
  with creation and truncation and closed at once (state \<open>b\<close>): these are the only calls
  made, and the descriptor table after them is the table before. Then the \<open>err\<close> target,
  if any, is opened for writing with creation and truncation, duplicated onto the
  standard error, and closed; the leaf makes no other call. After the leaf every
  descriptor other than the standard error is what it was, the standard input and output
  among them. If the \<^verbatim>\<open>open\<close> of the \<open>err\<close> target succeeds, in a shell whose standard
  error is open, then after the leaf the standard error is the description made by that
  \<^verbatim>\<open>open\<close>; if it fails, the standard error is unchanged. Nothing restores it: when
  the leaf returns as \<open>cmd1\<close> of a sequence, \<open>cmd2\<close> is evaluated in the state the leaf
  has left.
\<close>

theorem cd_redirection:
  fixes sy sc v e level father s r1 x d1 d2 c2 lv fa
  defines "i \<equiv> cd_redirect_in sy sc s"
  defines "b \<equiv> cd_redirect_out sy sc i"
  defines "r \<equiv> parse_simple sy (Some sc) level father s"
  defines "n \<equiv> Command OP_SEQUENTIAL x (Some (Command OP_NONE (Some sc) d1 d2)) c2"
  assumes "verb sc = Some v" and "string v = ''cd''"
  shows "trace i = trace s @
           (case inp sc of
              None \<Rightarrow> []
            | Some w \<Rightarrow>
                [Ev_open (string w) O_RDONLY (fst (sys_open sy (string w) O_RDONLY s)),
                 Ev_close (fst (sys_open sy (string w) O_RDONLY s))])
       \<and> trace b = trace i @
           (case out sc of
              None \<Rightarrow> []
            | Some w \<Rightarrow>
                [Ev_open (string w) O_WRONLY_CREAT_TRUNC
                   (fst (sys_open sy (string w) O_WRONLY_CREAT_TRUNC i)),
                 Ev_close (fst (sys_open sy (string w) O_WRONLY_CREAT_TRUNC i))])
       \<and> trace (final r) = trace b @
           (case err sc of
              None \<Rightarrow> []
            | Some w \<Rightarrow>
                [Ev_open (string w) O_WRONLY_CREAT_TRUNC
                   (fst (sys_open sy (string w) O_WRONLY_CREAT_TRUNC b)),
                 Ev_dup2 (fst (sys_open sy (string w) O_WRONLY_CREAT_TRUNC b)) STDERR_FILENO,
                 Ev_close (fst (sys_open sy (string w) O_WRONLY_CREAT_TRUNC b))])
       \<and> fds i = fds s \<and> fds b = fds s
       \<and> fds (final r) = (fds s)(STDERR_FILENO := fds (final r) STDERR_FILENO)
       \<and> fds (final r) STDIN_FILENO = fds s STDIN_FILENO
       \<and> fds (final r) STDOUT_FILENO = fds s STDOUT_FILENO
       \<and> (err sc = Some e \<and> 0 \<le> fst (sys_open sy (string e) O_WRONLY_CREAT_TRUNC b)
            \<and> fds s STDERR_FILENO \<noteq> None \<longrightarrow>
          fds (final r) STDERR_FILENO = Some (File (length (trace b)) (string e) O_WRONLY_CREAT_TRUNC))
       \<and> (err sc = Some e \<and> fst (sys_open sy (string e) O_WRONLY_CREAT_TRUNC b) = - 1 \<longrightarrow>
          fds (final r) STDERR_FILENO = fds s STDERR_FILENO)
       \<and> (returned r = Some r1 \<longrightarrow>
          parse_command sy (Some n) lv fa s =
            (case parse_command sy c2 (lv + 1) (Some n) (final r) of
               Returns r2 s2 \<Rightarrow> Returns (r1 AND r2) s2
             | Ends f s2 \<Rightarrow> Ends f s2))"
proof -
  have ti: "trace i = trace s @
           (case inp sc of
              None \<Rightarrow> []
            | Some w \<Rightarrow>
                [Ev_open (string w) O_RDONLY (fst (sys_open sy (string w) O_RDONLY s)),
                 Ev_close (fst (sys_open sy (string w) O_RDONLY s))])"
    unfolding i_def by (rule cd_redirect_in_trace)
  have tb: "trace b = trace i @
           (case out sc of
              None \<Rightarrow> []
            | Some w \<Rightarrow>
                [Ev_open (string w) O_WRONLY_CREAT_TRUNC
                   (fst (sys_open sy (string w) O_WRONLY_CREAT_TRUNC i)),
                 Ev_close (fst (sys_open sy (string w) O_WRONLY_CREAT_TRUNC i))])"
    unfolding b_def by (rule cd_redirect_out_trace)
  have fin: "final r = final (shell_cd sy (params sc) (cd_redirect_err sy sc b))"
    using assms(5,6) by (simp add: r_def b_def i_def parse_simple_cd cd_redirect_def)
  have tr: "trace (final r) = trace b @
           (case err sc of
              None \<Rightarrow> []
            | Some w \<Rightarrow>
                [Ev_open (string w) O_WRONLY_CREAT_TRUNC
                   (fst (sys_open sy (string w) O_WRONLY_CREAT_TRUNC b)),
                 Ev_dup2 (fst (sys_open sy (string w) O_WRONLY_CREAT_TRUNC b)) STDERR_FILENO,
                 Ev_close (fst (sys_open sy (string w) O_WRONLY_CREAT_TRUNC b))])"
    by (simp only: fin shell_cd_trace cd_redirect_err_trace)
  have fi: "fds i = fds s"
    by (simp add: i_def cd_redirect_in_fds)
  have fb: "fds b = fds s"
    by (simp add: b_def i_def cd_redirect_in_fds cd_redirect_out_fds)
  have fr: "fds (final r) = fds (cd_redirect_err sy sc b)"
    by (simp add: fin shell_cd_fds)
  have ft: "fds (final r) = (fds s)(STDERR_FILENO := fds (final r) STDERR_FILENO)"
    by (auto simp: fun_eq_iff fr cd_redirect_err_fds fb split: option.splits)
  have p1: "fds (final r) STDIN_FILENO = fds s STDIN_FILENO"
    by (simp add: fr cd_redirect_err_fds fb STDIN_FILENO_def STDERR_FILENO_def split: option.splits)
  have p2: "fds (final r) STDOUT_FILENO = fds s STDOUT_FILENO"
    by (simp add: fr cd_redirect_err_fds fb STDOUT_FILENO_def STDERR_FILENO_def split: option.splits)
  have p3: "err sc = Some e \<and> 0 \<le> fst (sys_open sy (string e) O_WRONLY_CREAT_TRUNC b)
            \<and> fds s STDERR_FILENO \<noteq> None \<longrightarrow>
          fds (final r) STDERR_FILENO = Some (File (length (trace b)) (string e) O_WRONLY_CREAT_TRUNC)"
  proof
    assume h: "err sc = Some e \<and> 0 \<le> fst (sys_open sy (string e) O_WRONLY_CREAT_TRUNC b)
            \<and> fds s STDERR_FILENO \<noteq> None"
    obtain fd a where o: "sys_open sy (string e) O_WRONLY_CREAT_TRUNC b = (fd, a)"
      by (cases "sys_open sy (string e) O_WRONLY_CREAT_TRUNC b")
    from h o have "0 \<le> fd" by simp
    moreover from h fb have "fds b STDERR_FILENO \<noteq> None" by simp
    ultimately have "fd \<noteq> STDERR_FILENO"
      using sys_open_not_open [OF o] by blast
    with h o show "fds (final r) STDERR_FILENO
        = Some (File (length (trace b)) (string e) O_WRONLY_CREAT_TRUNC)"
      by (simp add: fr cd_redirect_err_fds)
  qed
  have p4: "err sc = Some e \<and> fst (sys_open sy (string e) O_WRONLY_CREAT_TRUNC b) = - 1 \<longrightarrow>
          fds (final r) STDERR_FILENO = fds s STDERR_FILENO"
    by (simp add: fr cd_redirect_err_fds fb)
  have p5: "returned r = Some r1 \<longrightarrow>
          parse_command sy (Some n) lv fa s =
            (case parse_command sy c2 (lv + 1) (Some n) (final r) of
               Returns r2 s2 \<Rightarrow> Returns (r1 AND r2) s2
             | Ends f s2 \<Rightarrow> Ends f s2)"
  proof
    assume "returned r = Some r1"
    then obtain a where "r = Returns r1 a" by (auto dest: returned_SomeD)
    then have "parse_simple sy (Some sc) (lv + 1) (Some n) s = Returns r1 a"
      unfolding r_def by (simp add: parse_simple_level [of sy "Some sc" "lv + 1" "Some n" s level father])
    then show "parse_command sy (Some n) lv fa s =
            (case parse_command sy c2 (lv + 1) (Some n) (final r) of
               Returns r2 s2 \<Rightarrow> Returns (r1 AND r2) s2
             | Ends f s2 \<Rightarrow> Ends f s2)"
      using \<open>r = Returns r1 a\<close> unfolding n_def
      by (simp add: parse_command_node parse_command_leaf)
  qed
  from ti tb tr fi fb ft p1 p2 p3 p4 p5 show ?thesis by (intro conjI)
qed

text \<open>
  At \<^verbatim>\<open>cd /a < in > o 2> log\<close>, and at that leaf followed in a sequence by
  \<^verbatim>\<open>nosuch\<close>, whose child writes its message to the description of \<^verbatim>\<open>log\<close>.
\<close>

theorem cd_redirection_witness:
  "trace (final (parse_simple example_sys
      (Some ((simple ''cd'' (Some (lit ''/a'')))
         \<lparr>inp := Some (lit ''in''), out := Some (lit ''o''), err := Some (lit ''log'')\<rparr>))
      0 None example_state))
     = [Ev_open ''in'' O_RDONLY 3, Ev_close 3,
        Ev_open ''o'' O_WRONLY_CREAT_TRUNC 3, Ev_close 3,
        Ev_open ''log'' O_WRONLY_CREAT_TRUNC 3, Ev_dup2 3 2, Ev_close 3]
   \<and> fds (final (parse_simple example_sys
      (Some ((simple ''cd'' (Some (lit ''/a'')))
         \<lparr>inp := Some (lit ''in''), out := Some (lit ''o''), err := Some (lit ''log'')\<rparr>))
      0 None example_state)) STDIN_FILENO = Some (Stream 0)
   \<and> fds (final (parse_simple example_sys
      (Some ((simple ''cd'' (Some (lit ''/a'')))
         \<lparr>inp := Some (lit ''in''), out := Some (lit ''o''), err := Some (lit ''log'')\<rparr>))
      0 None example_state)) STDOUT_FILENO = Some (Stream 1)
   \<and> fds (final (parse_simple example_sys
      (Some ((simple ''cd'' (Some (lit ''/a'')))
         \<lparr>inp := Some (lit ''in''), out := Some (lit ''o''), err := Some (lit ''log'')\<rparr>))
      0 None example_state)) STDERR_FILENO = Some (File 4 ''log'' O_WRONLY_CREAT_TRUNC)
   \<and> Ev_stderr (Some (File 4 ''log'' O_WRONLY_CREAT_TRUNC)) (exec_failed_msg ''nosuch'')
       \<in> set (trace (final (parse_command example_sys
      (Some (Command OP_SEQUENTIAL None
         (Some (Command OP_NONE
            (Some ((simple ''cd'' (Some (lit ''/a'')))
               \<lparr>inp := Some (lit ''in''), out := Some (lit ''o''), err := Some (lit ''log'')\<rparr>))
            None None))
         (leaf (simple ''nosuch'' None))))
      0 None example_state)))"
proof -
  let ?sc = "(simple ''cd'' (Some (lit ''/a'')))
         \<lparr>inp := Some (lit ''in''), out := Some (lit ''o''), err := Some (lit ''log'')\<rparr>"
  let ?r = "parse_simple example_sys (Some ?sc) 0 None example_state"
  let ?i = "cd_redirect_in example_sys ?sc example_state"
  let ?b = "cd_redirect_out example_sys ?sc ?i"
  let ?c2 = "leaf (simple ''nosuch'' None)"
  let ?n = "Command OP_SEQUENTIAL None (Some (Command OP_NONE (Some ?sc) None None)) ?c2"
  have hv: "verb ?sc = Some (lit ''cd'')" by code_simp
  have hs: "string (lit ''cd'') = ''cd''" by code_simp
  note T = cd_redirection [where sy = example_sys and sc = ?sc and v = "lit ''cd''" and e = "lit ''log''"
      and level = 0 and father = None and s = example_state and ?r1.0 = 0 and x = None
      and ?d1.0 = None and ?d2.0 = None and ?c2.0 = ?c2 and lv = 0 and fa = None, OF hv hs]
  note T1 = T [THEN conjunct1]
  note T2 = T [THEN conjunct2, THEN conjunct1]
  note T3 = T [THEN conjunct2, THEN conjunct2, THEN conjunct1]
  note R = T [THEN conjunct2, THEN conjunct2, THEN conjunct2, THEN conjunct2, THEN conjunct2,
      THEN conjunct2]
  have ev: "inp ?sc = Some (lit ''in'')" "out ?sc = Some (lit ''o'')" "err ?sc = Some (lit ''log'')"
    "string (lit ''in'') = ''in''" "string (lit ''o'') = ''o''" "string (lit ''log'') = ''log''"
    "trace example_state = []"
    "fst (sys_open example_sys ''in'' O_RDONLY example_state) = 3"
    "fst (sys_open example_sys ''o'' O_WRONLY_CREAT_TRUNC ?i) = 3"
    "fst (sys_open example_sys ''log'' O_WRONLY_CREAT_TRUNC ?b) = 3"
    "STDERR_FILENO = 2"
    by code_simp+
  have t: "trace (final ?r)
     = [Ev_open ''in'' O_RDONLY 3, Ev_close 3,
        Ev_open ''o'' O_WRONLY_CREAT_TRUNC 3, Ev_close 3,
        Ev_open ''log'' O_WRONLY_CREAT_TRUNC 3, Ev_dup2 3 2, Ev_close 3]"
    unfolding T3 T2 T1 by (simp add: ev)
  have i: "fds (final ?r) STDIN_FILENO = fds example_state STDIN_FILENO"
    by (rule R [THEN conjunct1])
  have i': "fds example_state STDIN_FILENO = Some (Stream 0)" by code_simp
  have o: "fds (final ?r) STDOUT_FILENO = fds example_state STDOUT_FILENO"
    by (rule R [THEN conjunct2, THEN conjunct1])
  have o': "fds example_state STDOUT_FILENO = Some (Stream 1)" by code_simp
  have e: "fds (final ?r) STDERR_FILENO
             = Some (File (length (trace ?b)) (string (lit ''log'')) O_WRONLY_CREAT_TRUNC)"
    by (rule R [THEN conjunct2, THEN conjunct2, THEN conjunct1, THEN mp]; code_simp)
  have e': "length (trace ?b) = 4" "string (lit ''log'') = ''log''" by code_simp+
  have q: "parse_command example_sys (Some ?n) 0 None example_state =
            (case parse_command example_sys ?c2 (0 + 1) (Some ?n) (final ?r) of
               Returns r2 s2 \<Rightarrow> Returns (0 AND r2) s2
             | Ends f s2 \<Rightarrow> Ends f s2)"
    by (rule R [THEN conjunct2, THEN conjunct2, THEN conjunct2, THEN conjunct2, THEN mp]; code_simp)
  have q': "Ev_stderr (Some (File 4 ''log'' O_WRONLY_CREAT_TRUNC)) (exec_failed_msg ''nosuch'')
             \<in> set (trace (final (parse_command example_sys ?c2 (0 + 1) (Some ?n) (final ?r))))"
    by code_simp
  have l: "final (parse_command example_sys (Some ?n) 0 None example_state)
             = final (parse_command example_sys ?c2 (0 + 1) (Some ?n) (final ?r))"
    unfolding q by (rule final_case_result)
  from t i i' o o' e e' q' show ?thesis
    unfolding l by simp
qed

section \<open>Redirections of an external command\<close>




end
